theory Spec2Isabelle
  imports Main "HOL-Library.Multiset" "HOL-Library.AList" "HOL-Library.Sublist"
begin

section \<open>The syntax tree of go/ast, as far as the tools read it\<close>

text \<open>
  The three tools under \<^verbatim>\<open>tutorials/go/debugging/ast\<close> (\<^verbatim>\<open>custom_linter.go\<close>,
  \<^verbatim>\<open>refactoring_tool.go\<close>, \<^verbatim>\<open>code_generator.go\<close>) work on the tree that
  \<^verbatim>\<open>parser.ParseFile\<close> returns. The parser and the printer are collaborators outside the
  repository; the model starts from the parsed tree.

  An identifier occurrence is Go's \<^verbatim>\<open>ast.Ident{NamePos, Name, Obj}\<close>. The tools read of
  \<^verbatim>\<open>Obj\<close> only \<^verbatim>\<open>Obj.Kind\<close> and the dynamic type of \<^verbatim>\<open>Obj.Decl\<close>, and they
  compare the identifier by pointer with the name slot of that declaration
  (\<^verbatim>\<open>ident == parent.Name\<close>). Every identifier the parser creates has its own position,
  so the pointer comparison is modelled as a comparison of \<open>NamePos\<close>: \<open>ObjDecl\<close> records the
  dynamic type of \<^verbatim>\<open>Obj.Decl\<close> together with the position of the identifier it would be
  compared with.
\<close>

datatype ObjKind = Bad | Pkg | Con | Typ | Var | Fun | Lbl

datatype CallFun = FunIdent nat | FunSelectorExpr nat | FunOther

datatype ObjDecl =
    DeclNil
  | DeclField
  | DeclValueSpec
  | DeclTypeSpec nat
  | DeclFuncDecl nat
  | DeclAssignStmt
  | DeclCallExpr CallFun
  | DeclOther

record Object =
  Kind :: ObjKind
  Decl :: ObjDecl

text \<open>\<^verbatim>\<open>token.NoPos\<close>, the position of a node that has none.\<close>

definition NoPos :: nat where
  "NoPos = 0"

record ident =
  NamePos :: nat
  Name :: string
  Obj :: "Object option"

text \<open>
  Expressions, statements and types are one datatype \<open>node\<close>: a constructor for each node
  type that a tool tells apart, and \<open>Other\<close> (the node type's name, its position and its
  children in the order of \<^verbatim>\<open>ast.Walk\<close>) for all others. A node that does not start with
  a child carries the position of its first token. \<open>Field\<close> is \<^verbatim>\<open>ast.Field{Doc, Names, Type, Tag,
  Comment}\<close>; a comment group is the list of its comment texts, empty for \<^verbatim>\<open>nil\<close>.
\<close>

datatype node =
    Ident ident
  | BasicLit nat string
  | SelectorExpr node ident
  | StarExpr nat node
  | CallExpr node "node list"
  | StructType nat "field list"
  | AssignStmt "node list" "node list"
  | ExprStmt node
  | Other string nat "node list"
and field =
    Field "string list" "ident list" node "(nat \<times> string) option" "string list"

datatype token = IMPORT | CONST | TYPE | VAR

datatype spec =
    ImportSpec "ident option" nat string
  | TypeSpec ident "field list" node
  | ValueSpec "ident list" "node option" "node list"

record FuncType =
  TypeParams :: "field list"
  Params :: "field list option"
  Results :: "field list option"

datatype decl =
    GenDecl "string list" token "spec list"
  | FuncDecl "string list" "field list option" ident FuncType "node option"

record File =
  File_Name :: ident
  Decls :: "decl list"

text \<open>
  \<^verbatim>\<open>file.Imports\<close> is filled by the parser with the import specs of the file's import
  declarations, the same objects that hang under \<^verbatim>\<open>file.Decls\<close>.
\<close>

fun is_ImportSpec :: "spec \<Rightarrow> bool" where
  "is_ImportSpec (ImportSpec _ _ _) = True"
| "is_ImportSpec _ = False"

fun decl_Imports :: "decl \<Rightarrow> spec list" where
  "decl_Imports (GenDecl _ IMPORT specs) = filter is_ImportSpec specs"
| "decl_Imports _ = []"

definition Imports :: "File \<Rightarrow> spec list" where
  "Imports file = concat (map decl_Imports (Decls file))"

subsection \<open>ast.Inspect\<close>

text \<open>
  \<^verbatim>\<open>ast.Inspect(file, f)\<close> calls \<open>f\<close> on every node in depth-first pre-order, children in
  the order of \<^verbatim>\<open>ast.Walk\<close>, as long as \<open>f\<close> returns true; every visitor of the linter and
  of the refactoring tool returns true. \<open>Inspect\<close> lists the visited nodes of type \<open>node\<close>
  in that order. The visits of the file, of declarations, specs, field lists, fields and
  comments are left out of the list: no visitor of the linter matches them, and the
  refactorings that match them are modelled on the declarations directly.
\<close>

fun Inspect :: "node \<Rightarrow> node list"
  and Inspect_Field :: "field \<Rightarrow> node list" where
  "Inspect (Ident i) = [Ident i]"
| "Inspect (BasicLit p v) = [BasicLit p v]"
| "Inspect (SelectorExpr x sel) = SelectorExpr x sel # Inspect x @ [Ident sel]"
| "Inspect (StarExpr p x) = StarExpr p x # Inspect x"
| "Inspect (CallExpr fn args) = CallExpr fn args # Inspect fn @ concat (map Inspect args)"
| "Inspect (StructType p fl) = StructType p fl # concat (map Inspect_Field fl)"
| "Inspect (AssignStmt lhs rhs) =
     AssignStmt lhs rhs # concat (map Inspect lhs) @ concat (map Inspect rhs)"
| "Inspect (ExprStmt x) = ExprStmt x # Inspect x"
| "Inspect (Other k p ns) = Other k p ns # concat (map Inspect ns)"
| "Inspect_Field (Field doc names ty tag comment) =
     map Ident names @ Inspect ty @ (case tag of None \<Rightarrow> [] | Some (p, v) \<Rightarrow> [BasicLit p v])"

definition Inspect_FieldList :: "field list \<Rightarrow> node list" where
  "Inspect_FieldList fl = concat (map Inspect_Field fl)"

fun Inspect_opt :: "node option \<Rightarrow> node list" where
  "Inspect_opt None = []"
| "Inspect_opt (Some n) = Inspect n"

fun Inspect_FieldList_opt :: "field list option \<Rightarrow> node list" where
  "Inspect_FieldList_opt None = []"
| "Inspect_FieldList_opt (Some fl) = Inspect_FieldList fl"

fun Inspect_Spec :: "spec \<Rightarrow> node list" where
  "Inspect_Spec (ImportSpec name p path) =
     (case name of None \<Rightarrow> [] | Some i \<Rightarrow> [Ident i]) @ [BasicLit p path]"
| "Inspect_Spec (TypeSpec name tparams ty) =
     Ident name # Inspect_FieldList tparams @ Inspect ty"
| "Inspect_Spec (ValueSpec names ty vals) =
     map Ident names @ Inspect_opt ty @ concat (map Inspect vals)"

fun Inspect_Decl :: "decl \<Rightarrow> node list" where
  "Inspect_Decl (GenDecl doc tok specs) = concat (map Inspect_Spec specs)"
| "Inspect_Decl (FuncDecl doc recv name ty body) =
     Inspect_FieldList_opt recv @ [Ident name] @ Inspect_FieldList (TypeParams ty)
       @ Inspect_FieldList_opt (Params ty) @ Inspect_FieldList_opt (Results ty)
       @ Inspect_opt body"

definition Inspect_File :: "File \<Rightarrow> node list" where
  "Inspect_File file = Ident (File_Name file) # concat (map Inspect_Decl (Decls file))"

text \<open>
  The \<^verbatim>\<open>Pos()\<close> method of a node. \<^verbatim>\<open>AssignStmt.Pos()\<close> is \<^verbatim>\<open>Lhs[0].Pos()\<close>; the parser
  never builds an assignment without a left-hand side, and no tool asks for the position of
  an assignment.
\<close>

fun Pos :: "node \<Rightarrow> nat" where
  "Pos (Ident i) = NamePos i"
| "Pos (BasicLit p v) = p"
| "Pos (SelectorExpr x sel) = Pos x"
| "Pos (StarExpr p x) = p"
| "Pos (CallExpr fn args) = Pos fn"
| "Pos (StructType p fl) = p"
| "Pos (AssignStmt lhs rhs) = (case lhs of [] \<Rightarrow> NoPos | l # _ \<Rightarrow> Pos l)"
| "Pos (ExprStmt x) = Pos x"
| "Pos (Other k p ns) = p"

fun Spec_Pos :: "spec \<Rightarrow> nat" where
  "Spec_Pos (ImportSpec name p path) = (case name of Some i \<Rightarrow> NamePos i | None \<Rightarrow> p)"
| "Spec_Pos (TypeSpec name tparams ty) = NamePos name"
| "Spec_Pos (ValueSpec names ty vals) = (case names of [] \<Rightarrow> NoPos | i # _ \<Rightarrow> NamePos i)"

section \<open>The functions of package strings that the tools call\<close>

text \<open>
  Go strings are byte sequences, here \<open>string\<close>. Every call of \<^verbatim>\<open>strings.Split\<close> in the
  tools passes a separator of one byte (\<^verbatim>\<open>"/"\<close>, \<^verbatim>\<open>":"\<close>, \<^verbatim>\<open>" "\<close>, \<^verbatim>\<open>","\<close>), so
  \<open>Split\<close> takes a character. It returns one part more than there are separators, hence
  never the empty list.
\<close>

fun Split :: "string \<Rightarrow> char \<Rightarrow> string list" where
  "Split [] sep = ['''']"
| "Split (c # cs) sep =
     (if c = sep then [] # Split cs sep
      else (case Split cs sep of [] \<Rightarrow> [c # ''''] | p # ps \<Rightarrow> (c # p) # ps))"

definition TrimLeft :: "string \<Rightarrow> string \<Rightarrow> string" where
  "TrimLeft s cutset = dropWhile (\<lambda>c. c \<in> set cutset) s"

definition Trim :: "string \<Rightarrow> string \<Rightarrow> string" where
  "Trim s cutset = rev (TrimLeft (rev (TrimLeft s cutset)) cutset)"

definition HasPrefix :: "string \<Rightarrow> string \<Rightarrow> bool" where
  "HasPrefix s pre = prefix pre s"

section \<open>custom\_linter.go\<close>

record Position =
  Filename :: string
  Offset :: nat
  Line :: nat
  Column :: nat

text \<open>\<^verbatim>\<open>fset.Position\<close>: the file set turns a \<^verbatim>\<open>token.Pos\<close> into a position.\<close>

type_synonym FileSet = "nat \<Rightarrow> Position"

record Issue =
  Issue_Pos :: Position
  Message :: string
  Severity :: string

datatype LintRule = UnusedImportRule | ErrorReturnRule

fun Rule_Name :: "LintRule \<Rightarrow> string" where
  "Rule_Name UnusedImportRule = ''unused-import''"
| "Rule_Name ErrorReturnRule = ''error-check''"

fun Description :: "LintRule \<Rightarrow> string" where
  "Description UnusedImportRule = ''Detects unused imports in the code''"
| "Description ErrorReturnRule =
     ''Ensures that errors returned from function calls are checked''"

subsection \<open>UnusedImportRule.Check\<close>

text \<open>
  The rule keeps a Go map from import names to positions. The model keeps it as an
  association list with distinct keys: \<open>AList.update\<close> is \<^verbatim>\<open>imports[name] = pos\<close> and
  \<open>AList.delete\<close> is \<^verbatim>\<open>delete(imports, name)\<close>.
\<close>

type_synonym import_map = "(string \<times> Position) list"

text \<open>The body of the loop over \<^verbatim>\<open>file.Imports\<close>.\<close>

fun add_import :: "FileSet \<Rightarrow> spec \<Rightarrow> import_map \<Rightarrow> import_map" where
  "add_import fset (ImportSpec (Some i) p path) m =
     (if Name i = ''_'' then m
      else if Name i = ''.'' then m
      else AList.update (Name i) (fset (Spec_Pos (ImportSpec (Some i) p path))) m)"
| "add_import fset (ImportSpec None p path) m =
     (let parts = Split (Trim path [CHR 0x22]) CHR ''/''
      in AList.update (last parts) (fset (Spec_Pos (ImportSpec None p path))) m)"
| "add_import fset _ m = m"

definition collect_imports :: "FileSet \<Rightarrow> File \<Rightarrow> import_map" where
  "collect_imports fset file = fold (add_import fset) (Imports file) []"

text \<open>
  The visitor passed to \<^verbatim>\<open>ast.Inspect\<close>: an identifier whose name is a key of the map
  deletes that key, and so does a selector expression whose \<open>X\<close> is such an identifier.
\<close>

fun has_key :: "import_map \<Rightarrow> string \<Rightarrow> bool" where
  "has_key m k = (map_of m k \<noteq> None)"

fun visit_ident :: "node \<Rightarrow> import_map \<Rightarrow> import_map" where
  "visit_ident (Ident i) m = (if has_key m (Name i) then AList.delete (Name i) m else m)"
| "visit_ident _ m = m"

fun visit_selector :: "node \<Rightarrow> import_map \<Rightarrow> import_map" where
  "visit_selector (SelectorExpr (Ident x) sel) m =
     (if has_key m (Name x) then AList.delete (Name x) m else m)"
| "visit_selector _ m = m"

definition unused_visit :: "node \<Rightarrow> import_map \<Rightarrow> import_map" where
  "unused_visit n m = visit_selector n (visit_ident n m)"

definition remaining_imports :: "FileSet \<Rightarrow> File \<Rightarrow> import_map" where
  "remaining_imports fset file =
     fold unused_visit (Inspect_File file) (collect_imports fset file)"

text \<open>
  The report loop is \<^verbatim>\<open>for name, pos := range imports\<close>. Go leaves the order in which
  \<^verbatim>\<open>range\<close> enumerates a map unspecified, and the runtime varies it from one loop to the
  next: each entry comes exactly once, in some order. A run is therefore given the order
  \<open>\<rho>\<close> in which the runtime enumerates the map; \<open>map_order \<rho>\<close> says that \<open>\<rho>\<close> is such an
  enumeration, a permutation of the entries.
\<close>

type_synonym range_order = "import_map \<Rightarrow> import_map"

definition map_order :: "range_order \<Rightarrow> bool" where
  "map_order \<rho> \<longleftrightarrow> (\<forall>m. mset (\<rho> m) = mset m)"

definition unused_issue :: "string \<times> Position \<Rightarrow> Issue" where
  "unused_issue e =
     \<lparr>Issue_Pos = snd e, Message = ''Unused import: '' @ fst e, Severity = ''warning''\<rparr>"

definition UnusedImportRule_Check :: "range_order \<Rightarrow> FileSet \<Rightarrow> File \<Rightarrow> Issue list" where
  "UnusedImportRule_Check \<rho> fset file = map unused_issue (\<rho> (remaining_imports fset file))"

subsection \<open>ErrorReturnRule.Check\<close>

fun getFunctionName :: "node \<Rightarrow> string option" where
  "getFunctionName (CallExpr (Ident fn) args) = Some (Name fn)"
| "getFunctionName (CallExpr (SelectorExpr (Ident i) sel) args) =
     Some (Name i @ ''.'' @ Name sel)"
| "getFunctionName (CallExpr (SelectorExpr x sel) args) = Some (Name sel)"
| "getFunctionName _ = None"

fun is_CallExpr :: "node \<Rightarrow> bool" where
  "is_CallExpr (CallExpr fn args) = True"
| "is_CallExpr _ = False"

text \<open>What the loop over \<^verbatim>\<open>stmt.Rhs\<close> appends for one right-hand side.\<close>

definition ignored_error :: "FileSet \<Rightarrow> node list \<Rightarrow> node list \<Rightarrow> node \<Rightarrow> Issue list" where
  "ignored_error fset lhs rhs r =
     (if is_CallExpr r \<and> length lhs > 1 \<and> length rhs = 1 \<and> length lhs \<ge> 2 then
        (case last lhs of
           Ident i \<Rightarrow>
             if Name i = ''_'' then
               [\<lparr>Issue_Pos = fset (Pos (Ident i)),
                 Message = ''Error is explicitly ignored with _'',
                 Severity = ''warning''\<rparr>]
             else []
         | _ \<Rightarrow> [])
      else [])"

definition fallible_name :: "string \<Rightarrow> bool" where
  "fallible_name funcName \<longleftrightarrow>
     HasPrefix funcName ''Create'' \<or> HasPrefix funcName ''New'' \<or>
     HasPrefix funcName ''Open'' \<or> HasPrefix funcName ''Read'' \<or>
     HasPrefix funcName ''Write''"

fun error_visit :: "FileSet \<Rightarrow> node \<Rightarrow> Issue list" where
  "error_visit fset (AssignStmt lhs rhs) = concat (map (ignored_error fset lhs rhs) rhs)"
| "error_visit fset (ExprStmt (CallExpr fn args)) =
     (case getFunctionName (CallExpr fn args) of
        Some funcName \<Rightarrow>
          if fallible_name funcName then
            [\<lparr>Issue_Pos = fset (Pos (CallExpr fn args)),
              Message = ''Result of '' @ funcName
                          @ '' is ignored, but it might return an error'',
              Severity = ''warning''\<rparr>]
          else []
      | None \<Rightarrow> [])"
| "error_visit fset _ = []"

definition ErrorReturnRule_Check :: "FileSet \<Rightarrow> File \<Rightarrow> Issue list" where
  "ErrorReturnRule_Check fset file = concat (map (error_visit fset) (Inspect_File file))"

subsection \<open>lintFile\<close>

fun Check :: "range_order \<Rightarrow> LintRule \<Rightarrow> FileSet \<Rightarrow> File \<Rightarrow> Issue list" where
  "Check \<rho> UnusedImportRule fset file = UnusedImportRule_Check \<rho> fset file"
| "Check \<rho> ErrorReturnRule fset file = ErrorReturnRule_Check fset file"

text \<open>
  \<^verbatim>\<open>parser.ParseFile\<close> is the collaborator \<open>ParseFile\<close>: it fails with a message or returns
  the file set and the tree.
\<close>

type_synonym parser = "string \<Rightarrow> string + (FileSet \<times> File)"

definition lintFile ::
  "parser \<Rightarrow> range_order \<Rightarrow> string \<Rightarrow> LintRule list \<Rightarrow> string + Issue list" where
  "lintFile ParseFile \<rho> filename rules =
     (case ParseFile filename of
        Inl err \<Rightarrow> Inl (''failed to parse file: '' @ err)
      | Inr (fset, file) \<Rightarrow> Inr (concat (map (\<lambda>rule. Check \<rho> rule fset file) rules)))"

text \<open>The rules that \<^verbatim>\<open>main\<close> registers.\<close>

definition lint_rules :: "LintRule list" where
  "lint_rules = [UnusedImportRule, ErrorReturnRule]"

subsection \<open>Notions the properties of the linter are stated with\<close>

text \<open>
  A name occurs in a file when a visited node is an identifier with that name or a
  selector expression whose base \<open>X\<close> is an identifier with that name.
\<close>

fun names_import :: "string \<Rightarrow> node \<Rightarrow> bool" where
  "names_import name (Ident i) = (Name i = name)"
| "names_import name (SelectorExpr (Ident x) sel) = (Name x = name)"
| "names_import name _ = False"

definition occurs :: "string \<Rightarrow> File \<Rightarrow> bool" where
  "occurs name file \<longleftrightarrow> (\<exists>n \<in> set (Inspect_File file). names_import name n)"


text \<open>
  An issue of the unused-import rule, told by its message. Two lists of issues differ
  only in the order of the unused-import issues when they have the same length, agree
  at every position unless both hold an unused-import issue there, and hold the same
  unused-import issues with the same multiplicities.
\<close>

definition is_unused_import_issue :: "Issue \<Rightarrow> bool" where
  "is_unused_import_issue iss \<longleftrightarrow> prefix ''Unused import: '' (Message iss)"

definition same_but_import_order :: "Issue list \<Rightarrow> Issue list \<Rightarrow> bool" where
  "same_but_import_order xs ys \<longleftrightarrow>
     list_all2 (\<lambda>x y. x = y \<or> is_unused_import_issue x \<and> is_unused_import_issue y) xs ys
     \<and> mset (filter is_unused_import_issue xs) = mset (filter is_unused_import_issue ys)"

section \<open>refactoring\_tool.go\<close>

subsection \<open>The role of an identifier\<close>

text \<open>
  \<^verbatim>\<open>isFunctionIdent\<close>, \<^verbatim>\<open>isTypeIdent\<close> and \<^verbatim>\<open>isVarIdent\<close> look at \<^verbatim>\<open>ident.Obj\<close> only:
  \<^verbatim>\<open>nil\<close> is no role; otherwise the object's kind decides, and for the other kinds the
  dynamic type of \<^verbatim>\<open>Obj.Decl\<close>.
\<close>

fun isFunctionIdent :: "ident \<Rightarrow> bool" where
  "isFunctionIdent ident =
     (case Obj ident of
        None \<Rightarrow> False
      | Some ob \<Rightarrow>
          (case Kind ob of
             Fun \<Rightarrow> True
           | _ \<Rightarrow>
               (case Decl ob of
                  DeclFuncDecl name \<Rightarrow> NamePos ident = name
                | DeclCallExpr (FunIdent fn) \<Rightarrow> NamePos ident = fn
                | DeclCallExpr (FunSelectorExpr sel) \<Rightarrow> NamePos ident = sel
                | _ \<Rightarrow> False)))"

fun isTypeIdent :: "ident \<Rightarrow> bool" where
  "isTypeIdent ident =
     (case Obj ident of
        None \<Rightarrow> False
      | Some ob \<Rightarrow>
          (case Kind ob of
             Typ \<Rightarrow> True
           | _ \<Rightarrow>
               (case Decl ob of
                  DeclTypeSpec name \<Rightarrow> NamePos ident = name
                | _ \<Rightarrow> False)))"

fun isVarIdent :: "ident \<Rightarrow> bool" where
  "isVarIdent ident =
     (case Obj ident of
        None \<Rightarrow> False
      | Some ob \<Rightarrow>
          (case Kind ob of
             Var \<Rightarrow> True
           | _ \<Rightarrow>
               (case Decl ob of
                  DeclAssignStmt \<Rightarrow> True
                | DeclValueSpec \<Rightarrow> True
                | DeclField \<Rightarrow> True
                | _ \<Rightarrow> False)))"

subsection \<open>The identifiers of a tree, and their update in place\<close>

text \<open>
  The rename visitors assign \<^verbatim>\<open>ident.Name\<close> of the identifier they visit. The parser
  builds a tree (no identifier node hangs under two parents), \<^verbatim>\<open>ast.Inspect\<close> visits every
  identifier of it once, and the visitors read nothing but the visited identifier, so the
  traversal with its assignments is the tree with the visitor applied at every identifier.
\<close>

fun map_Idents :: "(ident \<Rightarrow> ident) \<Rightarrow> node \<Rightarrow> node"
  and map_Idents_Field :: "(ident \<Rightarrow> ident) \<Rightarrow> field \<Rightarrow> field" where
  "map_Idents f (Ident i) = Ident (f i)"
| "map_Idents f (BasicLit p v) = BasicLit p v"
| "map_Idents f (SelectorExpr x sel) = SelectorExpr (map_Idents f x) (f sel)"
| "map_Idents f (StarExpr p x) = StarExpr p (map_Idents f x)"
| "map_Idents f (CallExpr fn args) = CallExpr (map_Idents f fn) (map (map_Idents f) args)"
| "map_Idents f (StructType p fl) = StructType p (map (map_Idents_Field f) fl)"
| "map_Idents f (AssignStmt lhs rhs) =
     AssignStmt (map (map_Idents f) lhs) (map (map_Idents f) rhs)"
| "map_Idents f (ExprStmt x) = ExprStmt (map_Idents f x)"
| "map_Idents f (Other k p ns) = Other k p (map (map_Idents f) ns)"
| "map_Idents_Field f (Field doc names ty tag comment) =
     Field doc (map f names) (map_Idents f ty) tag comment"

definition map_Idents_FieldList :: "(ident \<Rightarrow> ident) \<Rightarrow> field list \<Rightarrow> field list" where
  "map_Idents_FieldList f fl = map (map_Idents_Field f) fl"

fun map_Idents_Spec :: "(ident \<Rightarrow> ident) \<Rightarrow> spec \<Rightarrow> spec" where
  "map_Idents_Spec f (ImportSpec name p path) = ImportSpec (map_option f name) p path"
| "map_Idents_Spec f (TypeSpec name tparams ty) =
     TypeSpec (f name) (map_Idents_FieldList f tparams) (map_Idents f ty)"
| "map_Idents_Spec f (ValueSpec names ty vals) =
     ValueSpec (map f names) (map_option (map_Idents f) ty) (map (map_Idents f) vals)"

definition map_Idents_FuncType :: "(ident \<Rightarrow> ident) \<Rightarrow> FuncType \<Rightarrow> FuncType" where
  "map_Idents_FuncType f ty =
     \<lparr>TypeParams = map_Idents_FieldList f (TypeParams ty),
      Params = map_option (map_Idents_FieldList f) (Params ty),
      Results = map_option (map_Idents_FieldList f) (Results ty)\<rparr>"

fun map_Idents_Decl :: "(ident \<Rightarrow> ident) \<Rightarrow> decl \<Rightarrow> decl" where
  "map_Idents_Decl f (GenDecl doc tok specs) = GenDecl doc tok (map (map_Idents_Spec f) specs)"
| "map_Idents_Decl f (FuncDecl doc recv name ty body) =
     FuncDecl doc (map_option (map_Idents_FieldList f) recv) (f name)
       (map_Idents_FuncType f ty) (map_option (map_Idents f) body)"

definition map_Idents_File :: "(ident \<Rightarrow> ident) \<Rightarrow> File \<Rightarrow> File" where
  "map_Idents_File f file =
     \<lparr>File_Name = f (File_Name file), Decls = map (map_Idents_Decl f) (Decls file)\<rparr>"

text \<open>The identifiers that \<^verbatim>\<open>ast.Inspect\<close> visits, in the order of the visits.\<close>

fun node_Ident :: "node \<Rightarrow> ident list" where
  "node_Ident (Ident i) = [i]"
| "node_Ident _ = []"

definition Idents :: "File \<Rightarrow> ident list" where
  "Idents file = concat (map node_Ident (Inspect_File file))"

subsection \<open>The refactorings\<close>

datatype Refactoring =
    RenameFunction string string
  | RenameType string string
  | RenameVariable string string
  | AddParameter string string string

fun Refactoring_Description :: "Refactoring \<Rightarrow> string" where
  "Refactoring_Description (RenameFunction OldName NewName) =
     ''Rename function from '' @ [CHR 0x27] @ OldName @ [CHR 0x27] @ '' to ''
       @ [CHR 0x27] @ NewName @ [CHR 0x27]"
| "Refactoring_Description (RenameType OldName NewName) =
     ''Rename type from '' @ [CHR 0x27] @ OldName @ [CHR 0x27] @ '' to ''
       @ [CHR 0x27] @ NewName @ [CHR 0x27]"
| "Refactoring_Description (RenameVariable OldName NewName) =
     ''Rename variable from '' @ [CHR 0x27] @ OldName @ [CHR 0x27] @ '' to ''
       @ [CHR 0x27] @ NewName @ [CHR 0x27]"
| "Refactoring_Description (AddParameter FunctionName ParamName ParamType) =
     ''Add parameter '' @ [CHR 0x27] @ ParamName @ '' '' @ ParamType @ [CHR 0x27]
       @ '' to function '' @ [CHR 0x27] @ FunctionName @ [CHR 0x27]"

text \<open>
  The visitor of the three renames: an identifier named \<open>OldName\<close> that has the role gets
  the name \<open>NewName\<close>, and \<^verbatim>\<open>changed\<close> is set.
\<close>

definition renames :: "(ident \<Rightarrow> bool) \<Rightarrow> string \<Rightarrow> ident \<Rightarrow> bool" where
  "renames is_role OldName ident \<longleftrightarrow> Name ident = OldName \<and> is_role ident"

definition rename_visit :: "(ident \<Rightarrow> bool) \<Rightarrow> string \<Rightarrow> string \<Rightarrow> ident \<Rightarrow> ident" where
  "rename_visit is_role OldName NewName ident =
     (if renames is_role OldName ident then ident\<lparr>Name := NewName\<rparr> else ident)"

definition Rename_Apply ::
  "(ident \<Rightarrow> bool) \<Rightarrow> string \<Rightarrow> string \<Rightarrow> File \<Rightarrow> bool \<times> File" where
  "Rename_Apply is_role OldName NewName file =
     (list_ex (renames is_role OldName) (Idents file),
      map_Idents_File (rename_visit is_role OldName NewName) file)"

text \<open>\<^verbatim>\<open>ast.NewIdent\<close> and the parameter that \<^verbatim>\<open>AddParameter.Apply\<close> builds.\<close>

definition NewIdent :: "string \<Rightarrow> ident" where
  "NewIdent name = \<lparr>NamePos = NoPos, Name = name, Obj = None\<rparr>"

definition newParam :: "string \<Rightarrow> string \<Rightarrow> field" where
  "newParam ParamName ParamType =
     Field [] [NewIdent ParamName] (Ident (NewIdent ParamType)) None []"

text \<open>
  The visitor of \<^verbatim>\<open>AddParameter.Apply\<close> matches \<^verbatim>\<open>*ast.FuncDecl\<close>; function declarations
  stand in \<^verbatim>\<open>file.Decls\<close> only. A \<^verbatim>\<open>nil\<close> parameter list is replaced by an empty one
  before the append.
\<close>

fun is_named_FuncDecl :: "string \<Rightarrow> decl \<Rightarrow> bool" where
  "is_named_FuncDecl FunctionName (FuncDecl doc recv name ty body) =
     (Name name = FunctionName)"
| "is_named_FuncDecl FunctionName _ = False"

fun add_param :: "string \<Rightarrow> string \<Rightarrow> string \<Rightarrow> decl \<Rightarrow> decl" where
  "add_param FunctionName ParamName ParamType (FuncDecl doc recv name ty body) =
     (if Name name = FunctionName then
        FuncDecl doc recv name
          (ty\<lparr>Params := Some ((case Params ty of None \<Rightarrow> [] | Some l \<Rightarrow> l)
                                @ [newParam ParamName ParamType])\<rparr>)
          body
      else FuncDecl doc recv name ty body)"
| "add_param FunctionName ParamName ParamType d = d"

definition AddParameter_Apply :: "string \<Rightarrow> string \<Rightarrow> string \<Rightarrow> File \<Rightarrow> bool \<times> File" where
  "AddParameter_Apply FunctionName ParamName ParamType file =
     (list_ex (is_named_FuncDecl FunctionName) (Decls file),
      file\<lparr>Decls := map (add_param FunctionName ParamName ParamType) (Decls file)\<rparr>)"

text \<open>\<^verbatim>\<open>Apply\<close> of the interface; none of the four returns an error.\<close>

fun Apply :: "Refactoring \<Rightarrow> File \<Rightarrow> bool \<times> File" where
  "Apply (RenameFunction OldName NewName) file =
     Rename_Apply isFunctionIdent OldName NewName file"
| "Apply (RenameType OldName NewName) file = Rename_Apply isTypeIdent OldName NewName file"
| "Apply (RenameVariable OldName NewName) file =
     Rename_Apply isVarIdent OldName NewName file"
| "Apply (AddParameter FunctionName ParamName ParamType) file =
     AddParameter_Apply FunctionName ParamName ParamType file"

subsection \<open>applyRefactorings and main\<close>

text \<open>
  The collaborators of the driver: the parser, the printer \<^verbatim>\<open>format.Node\<close>, and
  \<^verbatim>\<open>filepath.Walk\<close> with the callback of \<^verbatim>\<open>main\<close>, which yields the Go files under the
  directory or fails. What the tool prints is left out; what it writes is kept.
\<close>

record Env =
  Env_ParseFile :: parser
  Env_format_Node :: "File \<Rightarrow> string + string"
  Env_Walk :: "string \<Rightarrow> bool \<Rightarrow> string + string list"

record Flags =
  inputDir :: string
  recursive :: bool
  renameFn :: string
  renameType :: string
  renameVar :: string
  extractMethod :: string
  addParam :: string
  write_flag :: bool

text \<open>
  The loop over the refactorings: each is applied to the tree the previous one left, and
  \<^verbatim>\<open>changed\<close> records whether any reported a change.
\<close>

fun apply_all :: "Refactoring list \<Rightarrow> bool \<times> File \<Rightarrow> bool \<times> File" where
  "apply_all [] cf = cf"
| "apply_all (r # rs) (changed, file) =
     (case Apply r file of
        (refChanged, file') \<Rightarrow> apply_all rs (changed \<or> refChanged, file'))"

text \<open>
  The result for one file: the tree after the refactorings, and the bytes written back to
  the file if any were.
\<close>

record Applied =
  tree :: File
  written :: "string option"

definition applyRefactorings ::
  "Env \<Rightarrow> Flags \<Rightarrow> string \<Rightarrow> Refactoring list \<Rightarrow> string + Applied" where
  "applyRefactorings env flags filename refactorings =
     (case Env_ParseFile env filename of
        Inl err \<Rightarrow> Inl (''failed to parse file: '' @ err)
      | Inr (fset, file) \<Rightarrow>
          (case apply_all refactorings (False, file) of
             (changed, file') \<Rightarrow>
               if changed \<and> write_flag flags then
                 (case Env_format_Node env file' of
                    Inl err \<Rightarrow> Inl (''failed to format file: '' @ err)
                  | Inr buf \<Rightarrow> Inr \<lparr>tree = file', written = Some buf\<rparr>)
               else Inr \<lparr>tree = file', written = None\<rparr>))"

text \<open>
  \<^verbatim>\<open>main\<close> builds the refactorings from the flags, one flag after the other; a flag that
  is set and does not split at \<^verbatim>\<open>":"\<close> into the expected number of parts ends the process
  with \<^verbatim>\<open>os.Exit(1)\<close> after a message on standard error. \<open>Exit\<close> is that end, \<open>Done\<close> the
  results of \<^verbatim>\<open>applyRefactorings\<close> for the files in the order they were processed.
\<close>

datatype outcome = Exit nat string | Done "(string \<times> (string + Applied)) list"

definition rename_flag ::
  "string \<Rightarrow> string \<Rightarrow> (string \<Rightarrow> string \<Rightarrow> Refactoring) \<Rightarrow> Refactoring list
     \<Rightarrow> string + Refactoring list" where
  "rename_flag val flag_name mk refactorings =
     (if val \<noteq> '''' then
        (case Split val CHR '':'' of
           [old, new] \<Rightarrow> Inr (refactorings @ [mk old new])
         | _ \<Rightarrow> Inl (''Invalid format for -'' @ flag_name @ '', expected ''
                      @ [CHR 0x27] @ ''old:new'' @ [CHR 0x27]))
      else Inr refactorings)"

definition addParam_flag :: "string \<Rightarrow> Refactoring list \<Rightarrow> string + Refactoring list" where
  "addParam_flag val refactorings =
     (if val \<noteq> '''' then
        (case Split val CHR '':'' of
           [fn, name, ty] \<Rightarrow> Inr (refactorings @ [AddParameter fn name ty])
         | _ \<Rightarrow> Inl (''Invalid format for -add-param, expected ''
                      @ [CHR 0x27] @ ''function:name:type'' @ [CHR 0x27]))
      else Inr refactorings)"

definition build_refactorings :: "Flags \<Rightarrow> string + Refactoring list" where
  "build_refactorings flags =
     (case rename_flag (renameFn flags) ''rename-fn'' RenameFunction [] of
        Inl msg \<Rightarrow> Inl msg
      | Inr rs1 \<Rightarrow>
     (case rename_flag (renameType flags) ''rename-type'' RenameType rs1 of
        Inl msg \<Rightarrow> Inl msg
      | Inr rs2 \<Rightarrow>
     (case rename_flag (renameVar flags) ''rename-var'' RenameVariable rs2 of
        Inl msg \<Rightarrow> Inl msg
      | Inr rs3 \<Rightarrow> addParam_flag (addParam flags) rs3)))"

definition main :: "Env \<Rightarrow> Flags \<Rightarrow> outcome" where
  "main env flags =
     (case build_refactorings flags of
        Inl msg \<Rightarrow> Exit 1 msg
      | Inr refactorings \<Rightarrow>
          if length refactorings = 0 then Exit 1 ''No refactorings specified''
          else
            (case Env_Walk env (inputDir flags) (recursive flags) of
               Inl err \<Rightarrow> Exit 1 (''Error walking directory: '' @ err)
             | Inr filesToProcess \<Rightarrow>
                 Done (map (\<lambda>filename.
                              (filename, applyRefactorings env flags filename refactorings))
                         filesToProcess)))"

subsection \<open>Notions the properties of the refactorings are stated with\<close>

text \<open>The identifiers among a list of visited nodes, of a node and of a field.\<close>

definition Idents_of :: "node list \<Rightarrow> ident list" where
  "Idents_of ns = concat (map node_Ident ns)"

definition Node_Idents :: "node \<Rightarrow> ident list" where
  "Node_Idents n = concat (map node_Ident (Inspect n))"

definition Field_Idents :: "field \<Rightarrow> ident list" where
  "Field_Idents fd = concat (map node_Ident (Inspect_Field fd))"


text \<open>Rename-function from \<open>a\<close> to \<open>b\<close>, then from \<open>b\<close> to \<open>a\<close>, on the resulting tree.\<close>

definition rename_there_and_back :: "string \<Rightarrow> string \<Rightarrow> File \<Rightarrow> File" where
  "rename_there_and_back a b file =
     snd (Apply (RenameFunction b a) (snd (Apply (RenameFunction a b) file)))"

text \<open>The call expressions of a file, in the order of the traversal.\<close>

definition Calls :: "File \<Rightarrow> node list" where
  "Calls file = filter is_CallExpr (Inspect_File file)"

text \<open>
  What add-parameter is expected to do to one declaration: a function declaration with
  the name gets the parameter appended to its list, with everything else as it was, and
  any other declaration stays as it is.
\<close>

fun params_appended :: "string \<Rightarrow> field \<Rightarrow> decl \<Rightarrow> decl \<Rightarrow> bool" where
  "params_appended FunctionName param (FuncDecl doc recv name ty body) d' =
     (if Name name = FunctionName then
        d' = FuncDecl doc recv name
               \<lparr>TypeParams = TypeParams ty,
                Params = Some ((case Params ty of None \<Rightarrow> [] | Some l \<Rightarrow> l) @ [param]),
                Results = Results ty\<rparr>
               body
      else d' = FuncDecl doc recv name ty body)"
| "params_appended FunctionName param d d' = (d' = d)"

text \<open>
  A flag value that is set and does not split at \<^verbatim>\<open>":"\<close> into exactly two parts.
\<close>

definition malformed :: "string \<Rightarrow> bool" where
  "malformed val \<longleftrightarrow> val \<noteq> '''' \<and> length (Split val CHR '':'') \<noteq> 2"

text \<open>A declaration of a function or of a method with the name.\<close>

fun declares :: "string \<Rightarrow> decl \<Rightarrow> bool" where
  "declares FunctionName (FuncDecl doc recv name ty body) = (Name name = FunctionName)"
| "declares FunctionName (GenDecl doc tok specs) = False"

section \<open>code\_generator.go\<close>

record ParamInfo =
  ParamInfo_Name :: string
  ParamInfo_Type :: string

record MethodInfo =
  MethodInfo_Name :: string
  MethodInfo_Receiver :: string
  MethodInfo_Params :: "ParamInfo list"
  MethodInfo_Results :: "ParamInfo list"
  MethodInfo_Comments :: "string list"

record FieldInfo =
  FieldInfo_Name :: string
  FieldInfo_Type :: string
  FieldInfo_Tag :: string
  FieldInfo_JSONName :: string
  FieldInfo_DBName :: string
  FieldInfo_Comments :: "string list"

record StructInfo =
  StructInfo_Name :: string
  StructInfo_Fields :: "FieldInfo list"
  StructInfo_Methods :: "MethodInfo list"
  StructInfo_Comments :: "string list"

text \<open>The command line flags that \<^verbatim>\<open>GenerateCode\<close> reads.\<close>

record GenFlags =
  packageName :: string
  genMethods :: bool
  genJSON :: bool
  genSQLite :: bool

subsection \<open>text/template: the template and what Parse checks\<close>

text \<open>
  A template is kept the way the template lexer splits its text: the text between the
  actions, and the actions \<^verbatim>\<open>{{...}}\<close>. An action is a pipeline, a list of commands; a
  command is a list of operands: the dot, a field chain \<^verbatim>\<open>.A.B\<close>, a variable with a field
  chain \<^verbatim>\<open>$x.A\<close>, an identifier (the name of a function), a constant, or a pipeline in
  parentheses. \<^verbatim>\<open>{{if}}\<close> and \<^verbatim>\<open>{{range}}\<close> hold the nodes up to their \<^verbatim>\<open>{{end}}\<close>
  and those after an \<^verbatim>\<open>{{else}}\<close>; a range may declare variables.
\<close>

datatype operand =
    Dot
  | FieldRef "string list"
  | VariableRef string "string list"
  | FuncName string
  | BoolLit bool
  | StringLit string
  | SubPipeline "command list"
and command =
    Command "operand list"

datatype tmpl =
    Text string
  | Action "command list"
  | If "command list" "tmpl list" "tmpl list"
  | Range "string list" "command list" "tmpl list" "tmpl list"

datatype parse_error = FunctionNotDefined string | UndefinedVariable string

text \<open>The functions that text/template defines for every template.\<close>

definition builtins :: "string list" where
  "builtins =
     [''and'', ''call'', ''html'', ''index'', ''slice'', ''js'', ''len'', ''not'', ''or'',
      ''print'', ''printf'', ''println'', ''urlquery'',
      ''eq'', ''ge'', ''gt'', ''le'', ''lt'', ''ne'']"

text \<open>
  While it parses, \<^verbatim>\<open>Parse\<close> looks every identifier up in the function maps given to
  \<^verbatim>\<open>Funcs\<close> before and in the builtins (\<^verbatim>\<open>function "f" not defined\<close>), and every variable
  among those declared so far (\<^verbatim>\<open>undefined variable\<close>); it stops at the first error in
  the order of the text. The checks take the names of the registered functions and the
  variables in scope and return the first error.
\<close>

fun check_operand :: "string list \<Rightarrow> string list \<Rightarrow> operand \<Rightarrow> parse_error option"
  and check_operands :: "string list \<Rightarrow> string list \<Rightarrow> operand list \<Rightarrow> parse_error option"
  and check_command :: "string list \<Rightarrow> string list \<Rightarrow> command \<Rightarrow> parse_error option"
  and check_pipeline :: "string list \<Rightarrow> string list \<Rightarrow> command list \<Rightarrow> parse_error option"
  where
  "check_operand funcs vars Dot = None"
| "check_operand funcs vars (FieldRef chain) = None"
| "check_operand funcs vars (VariableRef v chain) =
     (if v \<in> set vars then None else Some (UndefinedVariable v))"
| "check_operand funcs vars (FuncName f) =
     (if f \<in> set funcs \<or> f \<in> set builtins then None else Some (FunctionNotDefined f))"
| "check_operand funcs vars (BoolLit b) = None"
| "check_operand funcs vars (StringLit s) = None"
| "check_operand funcs vars (SubPipeline p) = check_pipeline funcs vars p"
| "check_operands funcs vars [] = None"
| "check_operands funcs vars (x # xs) =
     (case check_operand funcs vars x of
        Some e \<Rightarrow> Some e
      | None \<Rightarrow> check_operands funcs vars xs)"
| "check_command funcs vars (Command xs) = check_operands funcs vars xs"
| "check_pipeline funcs vars [] = None"
| "check_pipeline funcs vars (c # cs) =
     (case check_command funcs vars c of
        Some e \<Rightarrow> Some e
      | None \<Rightarrow> check_pipeline funcs vars cs)"

fun check_node :: "string list \<Rightarrow> string list \<Rightarrow> tmpl \<Rightarrow> parse_error option"
  and check_nodes :: "string list \<Rightarrow> string list \<Rightarrow> tmpl list \<Rightarrow> parse_error option"
  where
  "check_node funcs vars (Text s) = None"
| "check_node funcs vars (Action p) = check_pipeline funcs vars p"
| "check_node funcs vars (If p body els) =
     (case check_pipeline funcs vars p of
        Some e \<Rightarrow> Some e
      | None \<Rightarrow>
          (case check_nodes funcs vars body of
             Some e \<Rightarrow> Some e
           | None \<Rightarrow> check_nodes funcs vars els))"
| "check_node funcs vars (Range decls p body els) =
     (case check_pipeline funcs vars p of
        Some e \<Rightarrow> Some e
      | None \<Rightarrow>
          (case check_nodes funcs (decls @ vars) body of
             Some e \<Rightarrow> Some e
           | None \<Rightarrow> check_nodes funcs (decls @ vars) els))"
| "check_nodes funcs vars [] = None"
| "check_nodes funcs vars (n # ns) =
     (case check_node funcs vars n of
        Some e \<Rightarrow> Some e
      | None \<Rightarrow> check_nodes funcs vars ns)"

text \<open>
  \<^verbatim>\<open>tmpl.Parse\<close> on a template whose function map has the names \<open>funcs\<close>; the variable
  \<^verbatim>\<open>$\<close> is declared from the start.
\<close>

definition Parse :: "string list \<Rightarrow> tmpl list \<Rightarrow> parse_error + tmpl list" where
  "Parse funcs text =
     (case check_nodes funcs [''$''] text of
        Some e \<Rightarrow> Inl e
      | None \<Rightarrow> Inr text)"

subsection \<open>The template of GenerateCode\<close>

text \<open>
  The names of the \<^verbatim>\<open>template.FuncMap\<close> that \<^verbatim>\<open>GenerateCode\<close> registers, and the
  template literal \<^verbatim>\<open>tmplText\<close> from its opening backquote to the backquote that stands
  alone on the line before \<^verbatim>\<open>tmpl.Parse\<close>. (The literal holds a Go raw string in
  backquotes itself, in \<^verbatim>\<open>SchemaX\<close>, \<^verbatim>\<open>InsertX\<close> and the functions after them; the
  template is read as it is meant, up to the last backquote.)
\<close>

definition FuncMap :: "string list" where
  "FuncMap = [''ToLower'', ''Title'', ''Add'']"

definition tmplText :: "tmpl list" where
  "tmplText =
    [Text (''// Code generated by code_generator.go; DO NOT EDIT.'' @ [CHR 0x0A, CHR 0x0A]
       @ ''package ''),
     Action [Command [Dot]],
     Text ([CHR 0x0A, CHR 0x0A]),
     Range [] [Command [Dot]]
       [Text ([CHR 0x0A]),
        Range [] [Command [Dot]]
          [Text ([CHR 0x0A]),
           If [Command [FieldRef [''Comments'']]]
             [Text ([CHR 0x0A]),
              Range [] [Command [FieldRef [''Comments'']]]
                [Action [Command [Dot]],
                 Text ([CHR 0x0A])]
                [],
              Text ([CHR 0x0A])]
             [],
           Text ([CHR 0x0A]),
           If [Command [FuncName ''and'',
                        SubPipeline [Command [FuncName ''eq'', VariableRef ''$'' [''GenJSON''], BoolLit True]],
                        SubPipeline [Command [FuncName ''ne'', FieldRef [''Name''], StringLit '''']]]]
             [Text ([CHR 0x0A] @ ''// Marshal''),
              Action [Command [FieldRef [''Name'']]],
              Text ('' converts ''),
              Action [Command [FieldRef [''Name'']]],
              Text ('' to JSON'' @ [CHR 0x0A] @ ''func (s ''),
              Action [Command [FieldRef [''Name'']]],
              Text ('') Marshal''),
              Action [Command [FieldRef [''Name'']]],
              Text (''() ([]byte, error) {'' @ [CHR 0x0A, CHR 0x09]
                @ ''return json.Marshal(s)'' @ [CHR 0x0A] @ ''}'' @ [CHR 0x0A, CHR 0x0A]
                @ ''// Unmarshal''),
              Action [Command [FieldRef [''Name'']]],
              Text ('' parses JSON into ''),
              Action [Command [FieldRef [''Name'']]],
              Text ([CHR 0x0A] @ ''func Unmarshal''),
              Action [Command [FieldRef [''Name'']]],
              Text (''(data []byte) (''),
              Action [Command [FieldRef [''Name'']]],
              Text ('', error) {'' @ [CHR 0x0A, CHR 0x09] @ ''var s ''),
              Action [Command [FieldRef [''Name'']]],
              Text ([CHR 0x0A, CHR 0x09] @ ''err := json.Unmarshal(data, &s)''
                @ [CHR 0x0A, CHR 0x09] @ ''return s, err'' @ [CHR 0x0A] @ ''}''
                @ [CHR 0x0A])]
             [],
           Text ([CHR 0x0A, CHR 0x0A]),
           If [Command [FuncName ''and'',
                        SubPipeline [Command [FuncName ''eq'', VariableRef ''$'' [''GenMethods''], BoolLit True]],
                        SubPipeline [Command [FuncName ''ne'', FieldRef [''Name''], StringLit '''']]]]
             [Text ([CHR 0x0A] @ ''// New''),
              Action [Command [FieldRef [''Name'']]],
              Text ('' creates a new instance of ''),
              Action [Command [FieldRef [''Name'']]],
              Text ([CHR 0x0A] @ ''func New''),
              Action [Command [FieldRef [''Name'']]],
              Text (''(''),
              Range [''$i'', ''$f''] [Command [FieldRef [''Fields'']]]
                [If [Command [VariableRef ''$i'' []]]
                   [Text ('', '')]
                   [],
                 Action [Command [VariableRef ''$f'' [''Name'']]],
                 Text ('' ''),
                 Action [Command [VariableRef ''$f'' [''Type'']]]]
                [],
              Text ('') *''),
              Action [Command [FieldRef [''Name'']]],
              Text ('' {'' @ [CHR 0x0A, CHR 0x09] @ ''return &''),
              Action [Command [FieldRef [''Name'']]],
              Text (''{'' @ [CHR 0x0A, CHR 0x09, CHR 0x09]),
              Range [] [Command [FieldRef [''Fields'']]]
                [Action [Command [FieldRef [''Name'']]],
                 Text ('': ''),
                 Action [Command [FieldRef [''Name'']]],
                 Text ('','' @ [CHR 0x0A, CHR 0x09, CHR 0x09])]
                [],
              Text ([CHR 0x0A, CHR 0x09] @ ''}'' @ [CHR 0x0A] @ ''}'' @ [CHR 0x0A, CHR 0x0A]
                @ ''// String returns a string representation of ''),
              Action [Command [FieldRef [''Name'']]],
              Text ([CHR 0x0A] @ ''func (s ''),
              Action [Command [FieldRef [''Name'']]],
              Text ('') String() string {'' @ [CHR 0x0A, CHR 0x09] @ ''return fmt.Sprintf(''
                @ [CHR 0x22]),
              Action [Command [FieldRef [''Name'']]],
              Text (''{ ''),
              Range [''$i'', ''$f''] [Command [FieldRef [''Fields'']]]
                [If [Command [VariableRef ''$i'' []]]
                   [Text ('', '')]
                   [],
                 Action [Command [VariableRef ''$f'' [''Name'']]],
                 Text ('': %v'')]
                [],
              Text ('' }'' @ [CHR 0x22] @ '', ''),
              Range [''$i'', ''$f''] [Command [FieldRef [''Fields'']]]
                [If [Command [VariableRef ''$i'' []]]
                   [Text ('', '')]
                   [],
                 Text (''s.''),
                 Action [Command [VariableRef ''$f'' [''Name'']]]]
                [],
              Text ('')'' @ [CHR 0x0A] @ ''}'' @ [CHR 0x0A, CHR 0x0A]
                @ ''// Clone creates a deep copy of ''),
              Action [Command [FieldRef [''Name'']]],
              Text ([CHR 0x0A] @ ''func (s ''),
              Action [Command [FieldRef [''Name'']]],
              Text ('') Clone() ''),
              Action [Command [FieldRef [''Name'']]],
              Text ('' {'' @ [CHR 0x0A, CHR 0x09] @ ''return ''),
              Action [Command [FieldRef [''Name'']]],
              Text (''{'' @ [CHR 0x0A, CHR 0x09, CHR 0x09]),
              Range [] [Command [FieldRef [''Fields'']]]
                [Action [Command [FieldRef [''Name'']]],
                 Text ('': s.''),
                 Action [Command [FieldRef [''Name'']]],
                 Text ('','' @ [CHR 0x0A, CHR 0x09, CHR 0x09])]
                [],
              Text ([CHR 0x0A, CHR 0x09] @ ''}'' @ [CHR 0x0A] @ ''}'' @ [CHR 0x0A])]
             [],
           Text ([CHR 0x0A, CHR 0x0A]),
           If [Command [FuncName ''and'',
                        SubPipeline [Command [FuncName ''eq'', VariableRef ''$'' [''GenSQLite''], BoolLit True]],
                        SubPipeline [Command [FuncName ''ne'', FieldRef [''Name''], StringLit '''']]]]
             [Text ([CHR 0x0A] @ ''// Schema''),
              Action [Command [FieldRef [''Name'']]],
              Text ('' returns the SQLite schema for ''),
              Action [Command [FieldRef [''Name'']]],
              Text ([CHR 0x0A] @ ''func Schema''),
              Action [Command [FieldRef [''Name'']]],
              Text (''() string {'' @ [CHR 0x0A, CHR 0x09] @ ''return '' @ [CHR 0x60]
                @ ''CREATE TABLE IF NOT EXISTS ''),
              Action [Command [FuncName ''ToLower'', FieldRef [''Name'']]],
              Text ('' ('' @ [CHR 0x0A, CHR 0x09, CHR 0x09]),
              Range [''$i'', ''$f''] [Command [FieldRef [''Fields'']]]
                [If [Command [VariableRef ''$i'' []]]
                   [Text ('','' @ [CHR 0x0A, CHR 0x09, CHR 0x09])]
                   [],
                 Action [Command [VariableRef ''$f'' [''DBName'']]],
                 Text ('' ''),
                 Action [Command [FuncName ''GetSQLType'', VariableRef ''$f'' [''Type'']]]]
                [],
              Text ([CHR 0x0A, CHR 0x09] @ '');'' @ [CHR 0x60, CHR 0x0A] @ ''}''
                @ [CHR 0x0A, CHR 0x0A] @ ''// Insert''),
              Action [Command [FieldRef [''Name'']]],
              Text ('' inserts a ''),
              Action [Command [FieldRef [''Name'']]],
              Text ('' into the database'' @ [CHR 0x0A] @ ''func Insert''),
              Action [Command [FieldRef [''Name'']]],
              Text (''(db *sql.DB, s ''),
              Action [Command [FieldRef [''Name'']]],
              Text ('') (int64, error) {'' @ [CHR 0x0A, CHR 0x09]
                @ ''stmt, err := db.Prepare('' @ [CHR 0x60] @ ''INSERT INTO ''),
              Action [Command [FuncName ''ToLower'', FieldRef [''Name'']]],
              Text ('' (''),
              Range [''$i'', ''$f''] [Command [FieldRef [''Fields'']]]
                [If [Command [VariableRef ''$i'' []]]
                   [Text ('', '')]
                   [],
                 Action [Command [VariableRef ''$f'' [''DBName'']]]]
                [],
              Text ('')'' @ [CHR 0x0A, CHR 0x09, CHR 0x09] @ ''VALUES (''),
              Range [''$i'', ''$f''] [Command [FieldRef [''Fields'']]]
                [If [Command [VariableRef ''$i'' []]]
                   [Text ('', '')]
                   [],
                 Text (''?'')]
                [],
              Text ('')'' @ [CHR 0x60] @ '')'' @ [CHR 0x0A, CHR 0x09] @ ''if err != nil {''
                @ [CHR 0x0A, CHR 0x09, CHR 0x09] @ ''return 0, err'' @ [CHR 0x0A, CHR 0x09]
                @ ''}'' @ [CHR 0x0A, CHR 0x09] @ ''defer stmt.Close()''
                @ [CHR 0x0A, CHR 0x09, CHR 0x0A, CHR 0x09] @ ''res, err := stmt.Exec(''),
              Range [''$i'', ''$f''] [Command [FieldRef [''Fields'']]]
                [If [Command [VariableRef ''$i'' []]]
                   [Text ('', '')]
                   [],
                 Text (''s.''),
                 Action [Command [VariableRef ''$f'' [''Name'']]]]
                [],
              Text ('')'' @ [CHR 0x0A, CHR 0x09] @ ''if err != nil {''
                @ [CHR 0x0A, CHR 0x09, CHR 0x09] @ ''return 0, err'' @ [CHR 0x0A, CHR 0x09]
                @ ''}'' @ [CHR 0x0A, CHR 0x09, CHR 0x0A, CHR 0x09]
                @ ''return res.LastInsertId()'' @ [CHR 0x0A] @ ''}'' @ [CHR 0x0A, CHR 0x0A]
                @ ''// Get''),
              Action [Command [FieldRef [''Name'']]],
              Text ('' retrieves a ''),
              Action [Command [FieldRef [''Name'']]],
              Text ('' by ID'' @ [CHR 0x0A] @ ''func Get''),
              Action [Command [FieldRef [''Name'']]],
              Text (''(db *sql.DB, id int64) (''),
              Action [Command [FieldRef [''Name'']]],
              Text ('', error) {'' @ [CHR 0x0A, CHR 0x09] @ ''var s ''),
              Action [Command [FieldRef [''Name'']]],
              Text ([CHR 0x0A, CHR 0x09] @ ''err := db.QueryRow('' @ [CHR 0x60]
                @ ''SELECT ''),
              Range [''$i'', ''$f''] [Command [FieldRef [''Fields'']]]
                [If [Command [VariableRef ''$i'' []]]
                   [Text ('', '')]
                   [],
                 Action [Command [VariableRef ''$f'' [''DBName'']]]]
                [],
              Text ([CHR 0x0A, CHR 0x09, CHR 0x09] @ ''FROM ''),
              Action [Command [FuncName ''ToLower'', FieldRef [''Name'']]],
              Text ('' WHERE id = ?'' @ [CHR 0x60] @ '', id).Scan(''),
              Range [''$i'', ''$f''] [Command [FieldRef [''Fields'']]]
                [If [Command [VariableRef ''$i'' []]]
                   [Text ('', '')]
                   [],
                 Text (''&s.''),
                 Action [Command [VariableRef ''$f'' [''Name'']]]]
                [],
              Text ('')'' @ [CHR 0x0A, CHR 0x09] @ ''return s, err'' @ [CHR 0x0A] @ ''}''
                @ [CHR 0x0A, CHR 0x0A] @ ''// Update''),
              Action [Command [FieldRef [''Name'']]],
              Text ('' updates a ''),
              Action [Command [FieldRef [''Name'']]],
              Text ('' in the database'' @ [CHR 0x0A] @ ''func Update''),
              Action [Command [FieldRef [''Name'']]],
              Text (''(db *sql.DB, s ''),
              Action [Command [FieldRef [''Name'']]],
              Text ('', id int64) error {'' @ [CHR 0x0A, CHR 0x09]
                @ ''stmt, err := db.Prepare('' @ [CHR 0x60] @ ''UPDATE ''),
              Action [Command [FuncName ''ToLower'', FieldRef [''Name'']]],
              Text ('' SET ''),
              Range [''$i'', ''$f''] [Command [FieldRef [''Fields'']]]
                [If [Command [VariableRef ''$i'' []]]
                   [Text ('', '')]
                   [],
                 Action [Command [VariableRef ''$f'' [''DBName'']]],
                 Text ('' = ?'')]
                [],
              Text ([CHR 0x0A, CHR 0x09, CHR 0x09] @ ''WHERE id = ?'' @ [CHR 0x60] @ '')''
                @ [CHR 0x0A, CHR 0x09] @ ''if err != nil {''
                @ [CHR 0x0A, CHR 0x09, CHR 0x09] @ ''return err'' @ [CHR 0x0A, CHR 0x09]
                @ ''}'' @ [CHR 0x0A, CHR 0x09] @ ''defer stmt.Close()''
                @ [CHR 0x0A, CHR 0x09, CHR 0x0A, CHR 0x09] @ ''_, err = stmt.Exec(''),
              Range [''$i'', ''$f''] [Command [FieldRef [''Fields'']]]
                [If [Command [VariableRef ''$i'' []]]
                   [Text ('', '')]
                   [],
                 Text (''s.''),
                 Action [Command [VariableRef ''$f'' [''Name'']]]]
                [],
              Text ('', id)'' @ [CHR 0x0A, CHR 0x09] @ ''return err'' @ [CHR 0x0A] @ ''}''
                @ [CHR 0x0A, CHR 0x0A] @ ''// Delete''),
              Action [Command [FieldRef [''Name'']]],
              Text ('' deletes a ''),
              Action [Command [FieldRef [''Name'']]],
              Text ('' from the database'' @ [CHR 0x0A] @ ''func Delete''),
              Action [Command [FieldRef [''Name'']]],
              Text (''(db *sql.DB, id int64) error {'' @ [CHR 0x0A, CHR 0x09]
                @ ''_, err := db.Exec('' @ [CHR 0x60] @ ''DELETE FROM ''),
              Action [Command [FuncName ''ToLower'', FieldRef [''Name'']]],
              Text ('' WHERE id = ?'' @ [CHR 0x60] @ '', id)'' @ [CHR 0x0A, CHR 0x09]
                @ ''return err'' @ [CHR 0x0A] @ ''}'' @ [CHR 0x0A])]
             [],
           Text ([CHR 0x0A])]
          [],
        Text ([CHR 0x0A])]
       [],
     Text ([CHR 0x0A])]"

subsection \<open>GenerateCode\<close>

record TemplateData =
  PackageName :: string
  Structs :: "StructInfo list"
  GenMethods :: bool
  GenJSON :: bool
  GenSQLite :: bool

text \<open>
  The collaborators of the generator: the parser, the printer behind \<^verbatim>\<open>FormatNode\<close>,
  \<^verbatim>\<open>strings.ToLower\<close> (which follows Unicode), the execution of a parsed template on
  its data, and \<^verbatim>\<open>format.Source\<close>.
\<close>

record GenEnv =
  Gen_ParseFile :: parser
  Gen_FormatNode :: "node \<Rightarrow> string"
  Gen_ToLower :: "string \<Rightarrow> string"
  Gen_Execute :: "tmpl list \<Rightarrow> TemplateData \<Rightarrow> string + string"
  Gen_format_Source :: "string \<Rightarrow> string + string"

datatype gen_error =
    ParseTemplateFailed parse_error
  | ExecuteTemplateFailed string
  | FormatCodeFailed string

text \<open>
  \<^verbatim>\<open>GenerateCode\<close> returns the code and an error; the error is \<open>None\<close> for \<^verbatim>\<open>nil\<close>.
\<close>

definition GenerateCode ::
  "GenEnv \<Rightarrow> GenFlags \<Rightarrow> StructInfo list \<Rightarrow> string \<Rightarrow> string \<times> gen_error option" where
  "GenerateCode env flags structs pkgName =
     (let pkgName = (if packageName flags \<noteq> '''' then packageName flags else pkgName)
      in case Parse FuncMap tmplText of
           Inl err \<Rightarrow> ('''', Some (ParseTemplateFailed err))
         | Inr tmpl \<Rightarrow>
             (let data = \<lparr>PackageName = pkgName, Structs = structs,
                          GenMethods = genMethods flags, GenJSON = genJSON flags,
                          GenSQLite = genSQLite flags\<rparr>
              in case Gen_Execute env tmpl data of
                   Inl err \<Rightarrow> ('''', Some (ExecuteTemplateFailed err))
                 | Inr buf \<Rightarrow>
                     (case Gen_format_Source env buf of
                        Inl err \<Rightarrow> (buf, Some (FormatCodeFailed err))
                      | Inr formattedCode \<Rightarrow> (formattedCode, None))))"

subsection \<open>ExtractStructs\<close>

text \<open>\<^verbatim>\<open>extractTagValue\<close>: the value of \<^verbatim>\<open>key:"value"\<close> in a struct tag, up to a comma.\<close>

definition extractTagValue :: "string \<Rightarrow> string \<Rightarrow> string" where
  "extractTagValue tag key =
     (let tag = Trim tag [CHR 0x60];
          keyPrefix = key @ '':''
      in case find (\<lambda>part. HasPrefix part keyPrefix) (Split tag CHR '' '') of
           Some part \<Rightarrow>
             (let val = drop (length keyPrefix) part;
                  val = Trim val [CHR 0x22]
              in case Split val CHR '','' of
                   [] \<Rightarrow> ''''
                 | p # _ \<Rightarrow> p)
         | None \<Rightarrow> '''')"

text \<open>
  The body of the loop over \<^verbatim>\<open>structType.Fields.List\<close>: a field without names is
  skipped (\<open>None\<close>); of a field with names the first name is taken.
\<close>

fun field_info :: "GenEnv \<Rightarrow> field \<Rightarrow> FieldInfo option" where
  "field_info env (Field doc [] ty tag comment) = None"
| "field_info env (Field doc (name # names) ty tag comment) =
     (let fieldName = Name name;
          fieldType = Gen_FormatNode env ty;
          lower = Gen_ToLower env fieldName
      in Some
           (case tag of
              Some (p, tagValue) \<Rightarrow>
                \<lparr>FieldInfo_Name = fieldName, FieldInfo_Type = fieldType,
                 FieldInfo_Tag = tagValue,
                 FieldInfo_JSONName =
                   (if extractTagValue tagValue ''json'' = '''' then lower
                    else extractTagValue tagValue ''json''),
                 FieldInfo_DBName =
                   (if extractTagValue tagValue ''db'' = '''' then lower
                    else extractTagValue tagValue ''db''),
                 FieldInfo_Comments = doc @ comment\<rparr>
            | None \<Rightarrow>
                \<lparr>FieldInfo_Name = fieldName, FieldInfo_Type = fieldType,
                 FieldInfo_Tag = '''',
                 FieldInfo_JSONName = lower, FieldInfo_DBName = lower,
                 FieldInfo_Comments = doc @ comment\<rparr>))"

text \<open>
  The body of the loop over \<^verbatim>\<open>genDecl.Specs\<close>: a type spec whose type is a struct type
  gives a \<^verbatim>\<open>StructInfo\<close> with the doc comments of the declaration.
\<close>

fun struct_info :: "GenEnv \<Rightarrow> string list \<Rightarrow> spec \<Rightarrow> StructInfo option" where
  "struct_info env doc (TypeSpec name tparams (StructType p fl)) =
     Some \<lparr>StructInfo_Name = Name name,
           StructInfo_Fields = List.map_filter (field_info env) fl,
           StructInfo_Methods = [],
           StructInfo_Comments = doc\<rparr>"
| "struct_info env doc _ = None"

text \<open>The receiver type name of a method: \<^verbatim>\<open>T\<close> or \<^verbatim>\<open>*T\<close>, otherwise empty.\<close>

fun recvType :: "node \<Rightarrow> string" where
  "recvType (StarExpr p (Ident i)) = Name i"
| "recvType (Ident i) = Name i"
| "recvType _ = ''''"

fun field_Type :: "field \<Rightarrow> node" where
  "field_Type (Field doc names ty tag comment) = ty"

fun param_infos :: "GenEnv \<Rightarrow> field \<Rightarrow> ParamInfo list" where
  "param_infos env (Field doc names ty tag comment) =
     map (\<lambda>name. \<lparr>ParamInfo_Name = Name name,
                    ParamInfo_Type = Gen_FormatNode env ty\<rparr>) names"

fun result_infos :: "GenEnv \<Rightarrow> field \<Rightarrow> ParamInfo list" where
  "result_infos env (Field doc names ty tag comment) =
     (if length names > 0 then
        map (\<lambda>name. \<lparr>ParamInfo_Name = Name name,
                       ParamInfo_Type = Gen_FormatNode env ty\<rparr>) names
      else [\<lparr>ParamInfo_Name = '''', ParamInfo_Type = Gen_FormatNode env ty\<rparr>])"

definition method_info ::
  "GenEnv \<Rightarrow> string list \<Rightarrow> field \<Rightarrow> ident \<Rightarrow> FuncType \<Rightarrow> MethodInfo" where
  "method_info env doc recv name ty =
     \<lparr>MethodInfo_Name = Name name,
      MethodInfo_Receiver = Gen_FormatNode env (field_Type recv),
      MethodInfo_Params =
        (case Params ty of None \<Rightarrow> [] | Some l \<Rightarrow> concat (map (param_infos env) l)),
      MethodInfo_Results =
        (case Results ty of None \<Rightarrow> [] | Some l \<Rightarrow> concat (map (result_infos env) l)),
      MethodInfo_Comments = doc\<rparr>"

text \<open>
  One turn of the loop over \<^verbatim>\<open>file.Decls\<close>. A type declaration appends its structs. A
  method is added to every struct collected so far that has the name of its receiver
  type. \<^verbatim>\<open>funcDecl.Recv.List[0]\<close> panics on an empty receiver list.
\<close>

datatype extract_error = FailedToParse string | IndexOutOfRange

fun extract_decl :: "GenEnv \<Rightarrow> decl \<Rightarrow> StructInfo list \<Rightarrow> extract_error + StructInfo list" where
  "extract_decl env (GenDecl doc tok specs) structs =
     (if tok = token.TYPE then Inr (structs @ List.map_filter (struct_info env doc) specs)
      else Inr structs)"
| "extract_decl env (FuncDecl doc None name ty body) structs = Inr structs"
| "extract_decl env (FuncDecl doc (Some []) name ty body) structs = Inl IndexOutOfRange"
| "extract_decl env (FuncDecl doc (Some (recv # rs)) name ty body) structs =
     (if recvType (field_Type recv) \<noteq> '''' then
        Inr (map (\<lambda>s. if StructInfo_Name s = recvType (field_Type recv)
                       then s\<lparr>StructInfo_Methods :=
                                StructInfo_Methods s @ [method_info env doc recv name ty]\<rparr>
                       else s) structs)
      else Inr structs)"

fun extract_decls :: "GenEnv \<Rightarrow> decl list \<Rightarrow> StructInfo list \<Rightarrow> extract_error + StructInfo list" where
  "extract_decls env [] structs = Inr structs"
| "extract_decls env (d # ds) structs =
     (case extract_decl env d structs of
        Inl e \<Rightarrow> Inl e
      | Inr structs' \<Rightarrow> extract_decls env ds structs')"

definition ExtractStructs ::
  "GenEnv \<Rightarrow> string \<Rightarrow> extract_error + (StructInfo list \<times> string)" where
  "ExtractStructs env filename =
     (case Gen_ParseFile env filename of
        Inl err \<Rightarrow> Inl (FailedToParse (''failed to parse file: '' @ err))
      | Inr (fset, file) \<Rightarrow>
          (case extract_decls env (Decls file) [] of
             Inl e \<Rightarrow> Inl e
           | Inr structs \<Rightarrow> Inr (structs, Name (File_Name file))))"

subsection \<open>Notions the properties of the generator are stated with\<close>

text \<open>
  The names a struct type declares, in the order of the source: all names of its named
  fields, and the first name of each named field.
\<close>

fun field_Names :: "field \<Rightarrow> string list" where
  "field_Names (Field doc names ty tag comment) = map Name names"

definition declared_names :: "field list \<Rightarrow> string list" where
  "declared_names fl = concat (map field_Names fl)"

definition first_names :: "field list \<Rightarrow> string list" where
  "first_names fl = concat (map (\<lambda>fd. take 1 (field_Names fd)) fl)"

section \<open>Example inputs\<close>

text \<open>
  Small parsed files on which the definitions are evaluated. \<open>used_imports_file\<close> is
  \<^verbatim>\<open>package main; import ("fmt"; foo "example.com/pkg"); func main() { fmt.Println();
  NewServer() }\<close>, \<open>unused_imports_file\<close> imports \<^verbatim>\<open>"fmt"\<close>, \<^verbatim>\<open>"os"\<close> and
  \<^verbatim>\<open>"path/filepath"\<close> and has the same \<^verbatim>\<open>main\<close>.
\<close>

definition quoted :: "string \<Rightarrow> string" where
  "quoted s = CHR 0x22 # s @ [CHR 0x22]"

definition ident_at :: "nat \<Rightarrow> string \<Rightarrow> ident" where
  "ident_at p s = \<lparr>NamePos = p, Name = s, Obj = None\<rparr>"

definition example_fset :: FileSet where
  "example_fset p = \<lparr>Filename = ''main.go'', Offset = p, Line = 1, Column = Suc p\<rparr>"

definition example_main :: decl where
  "example_main =
     FuncDecl [] None (ident_at 80 ''main'') \<lparr>TypeParams = [], Params = Some [], Results = None\<rparr>
       (Some (Other ''BlockStmt'' 92
          [ExprStmt (CallExpr (SelectorExpr (Ident (ident_at 95 ''fmt'')) (ident_at 99 ''Println'')) []),
           ExprStmt (CallExpr (Ident (ident_at 110 ''NewServer'')) [])]))"

definition used_imports_file :: File where
  "used_imports_file =
     \<lparr>File_Name = ident_at 8 ''main'',
      Decls = [GenDecl [] IMPORT [ImportSpec None 20 (quoted ''fmt''),
                                   ImportSpec (Some (ident_at 30 ''foo'')) 34 (quoted ''example.com/pkg'')],
               example_main]\<rparr>"

definition unused_imports_file :: File where
  "unused_imports_file =
     \<lparr>File_Name = ident_at 8 ''main'',
      Decls = [GenDecl [] IMPORT [ImportSpec None 20 (quoted ''fmt''),
                                   ImportSpec None 30 (quoted ''os''),
                                   ImportSpec None 40 (quoted ''path/filepath'')],
               example_main]\<rparr>"




definition example_parser :: parser where
  "example_parser filename =
     (if filename = ''main.go'' then Inr (example_fset, unused_imports_file)
      else if filename = ''used.go'' then Inr (example_fset, used_imports_file)
      else Inl ''open: no such file'')"


text \<open>
  \<open>refactor_file\<close> is \<^verbatim>\<open>package main; type T struct { T int }; func a(x T) {};
  func main() { a(v) }\<close> with the objects the parser resolves: the type \<^verbatim>\<open>T\<close> and its
  use, the field \<^verbatim>\<open>T\<close>, the parameter \<^verbatim>\<open>x\<close>, and the function \<^verbatim>\<open>a\<close> at its
  declaration and at the call. \<open>two_functions_file\<close> is \<^verbatim>\<open>package main; func a() {};
  func b() {}\<close>.
\<close>

definition resolved :: "nat \<Rightarrow> string \<Rightarrow> ObjKind \<Rightarrow> ObjDecl \<Rightarrow> ident" where
  "resolved p s k d = \<lparr>NamePos = p, Name = s, Obj = Some \<lparr>Kind = k, Decl = d\<rparr>\<rparr>"

definition refactor_file :: File where
  "refactor_file =
     \<lparr>File_Name = ident_at 8 ''main'',
      Decls =
        [GenDecl [] token.TYPE
           [TypeSpec (resolved 20 ''T'' Typ (DeclTypeSpec 20)) []
              (StructType 22
                 [Field [] [resolved 31 ''T'' Var DeclField] (Ident (ident_at 33 ''int''))
                    None []])],
         FuncDecl [] None (resolved 45 ''a'' Fun (DeclFuncDecl 45))
           \<lparr>TypeParams = [],
            Params = Some [Field [] [resolved 47 ''x'' Var DeclField]
                             (Ident (resolved 49 ''T'' Typ (DeclTypeSpec 20))) None []],
            Results = None\<rparr>
           (Some (Other ''BlockStmt'' 52 [])),
         FuncDecl [] None (resolved 60 ''main'' Fun (DeclFuncDecl 60))
           \<lparr>TypeParams = [], Params = Some [], Results = None\<rparr>
           (Some (Other ''BlockStmt'' 67
              [ExprStmt (CallExpr (Ident (resolved 69 ''a'' Fun (DeclFuncDecl 45)))
                 [Ident (ident_at 71 ''v'')])]))]\<rparr>"

definition two_functions_file :: File where
  "two_functions_file =
     \<lparr>File_Name = ident_at 8 ''main'',
      Decls =
        [FuncDecl [] None (resolved 20 ''a'' Fun (DeclFuncDecl 20))
           \<lparr>TypeParams = [], Params = Some [], Results = None\<rparr>
           (Some (Other ''BlockStmt'' 24 [])),
         FuncDecl [] None (resolved 32 ''b'' Fun (DeclFuncDecl 32))
           \<lparr>TypeParams = [], Params = Some [], Results = None\<rparr>
           (Some (Other ''BlockStmt'' 36 []))]\<rparr>"

text \<open>
  \<open>method_file\<close> is \<^verbatim>\<open>package main; func (s S) a() {}; func a() {}\<close>: a method and a
  function of the same name.
\<close>

definition method_file :: File where
  "method_file =
     \<lparr>File_Name = ident_at 8 ''main'',
      Decls =
        [FuncDecl []
           (Some [Field [] [resolved 26 ''s'' Var DeclField] (Ident (ident_at 28 ''S''))
                    None []])
           (ident_at 31 ''a'')
           \<lparr>TypeParams = [], Params = Some [], Results = None\<rparr>
           (Some (Other ''BlockStmt'' 35 [])),
         FuncDecl [] None (resolved 44 ''a'' Fun (DeclFuncDecl 44))
           \<lparr>TypeParams = [], Params = Some [], Results = None\<rparr>
           (Some (Other ''BlockStmt'' 48 []))]\<rparr>"

text \<open>
  An environment with the one file \<^verbatim>\<open>a.go\<close>, parsed to \<open>refactor_file\<close>, and flags that
  set nothing.
\<close>

definition example_env :: Env where
  "example_env =
     \<lparr>Env_ParseFile = (\<lambda>filename. Inr (example_fset, refactor_file)),
      Env_format_Node = (\<lambda>file. Inr ''formatted''),
      Env_Walk = (\<lambda>dir rec. Inr [''a.go''])\<rparr>"

definition no_flags :: Flags where
  "no_flags =
     \<lparr>inputDir = ''.'', recursive = False, renameFn = '''', renameType = '''',
      renameVar = '''', extractMethod = '''', addParam = '''', write_flag = False\<rparr>"

text \<open>
  Flag values for \<^verbatim>\<open>-rename-fn\<close>: one whose new name is empty, and one without a colon.
\<close>

definition empty_new_flags :: Flags where
  "empty_new_flags = no_flags\<lparr>renameFn := ''a:''\<rparr>"

definition one_part_flags :: Flags where
  "one_part_flags = no_flags\<lparr>renameFn := ''a''\<rparr>"

definition three_part_flags :: Flags where
  "three_part_flags = no_flags\<lparr>renameFn := ''a:b'', renameVar := ''x:y:z''\<rparr>"

text \<open>
  For the generator: the shape \<^verbatim>\<open>User{id uint64, name string, active bool}\<close>, the flags
  with every family of output switched on, and an environment whose parser returns
  \<^verbatim>\<open>package models; type T struct { A, B int; C string }\<close>. Its printer prints an
  identifier as its name, and its \<^verbatim>\<open>ToLower\<close> lowers the letters the example uses.
\<close>

definition plain_field :: "string \<Rightarrow> string \<Rightarrow> FieldInfo" where
  "plain_field name ty =
     \<lparr>FieldInfo_Name = name, FieldInfo_Type = ty, FieldInfo_Tag = '''',
      FieldInfo_JSONName = name, FieldInfo_DBName = name, FieldInfo_Comments = []\<rparr>"

definition user_struct :: StructInfo where
  "user_struct =
     \<lparr>StructInfo_Name = ''User'',
      StructInfo_Fields =
        [plain_field ''id'' ''uint64'', plain_field ''name'' ''string'',
         plain_field ''active'' ''bool''],
      StructInfo_Methods = [],
      StructInfo_Comments = []\<rparr>"

definition sqlite_flags :: GenFlags where
  "sqlite_flags = \<lparr>packageName = '''', genMethods = True, genJSON = True, genSQLite = True\<rparr>"

definition multi_name_file :: File where
  "multi_name_file =
     \<lparr>File_Name = ident_at 8 ''models'',
      Decls =
        [GenDecl [] token.TYPE
           [TypeSpec (resolved 20 ''T'' Typ (DeclTypeSpec 20)) []
              (StructType 22
                 [Field [] [resolved 31 ''A'' Var DeclField, resolved 34 ''B'' Var DeclField]
                    (Ident (ident_at 36 ''int'')) None [],
                  Field [] [resolved 41 ''C'' Var DeclField]
                    (Ident (ident_at 43 ''string'')) None []])]]\<rparr>"

fun example_FormatNode :: "node \<Rightarrow> string" where
  "example_FormatNode (Ident i) = Name i"
| "example_FormatNode _ = ''?''"

definition example_ToLower :: "string \<Rightarrow> string" where
  "example_ToLower s =
     map (\<lambda>c. if c = CHR ''A'' then CHR ''a'' else if c = CHR ''B'' then CHR ''b''
               else if c = CHR ''C'' then CHR ''c'' else c) s"

definition example_gen_env :: GenEnv where
  "example_gen_env =
     \<lparr>Gen_ParseFile = (\<lambda>filename. Inr (example_fset, multi_name_file)),
      Gen_FormatNode = example_FormatNode,
      Gen_ToLower = example_ToLower,
      Gen_Execute = (\<lambda>t data. Inr ''package models''),
      Gen_format_Source = (\<lambda>buf. Inr buf)\<rparr>"

text \<open>The issues that the linter reports on the example files.\<close>

definition os_issue :: Issue where
  "os_issue =
     \<lparr>Issue_Pos = example_fset 30, Message = ''Unused import: os'', Severity = ''warning''\<rparr>"

definition filepath_issue :: Issue where
  "filepath_issue =
     \<lparr>Issue_Pos = example_fset 40, Message = ''Unused import: filepath'',
      Severity = ''warning''\<rparr>"

definition server_issue :: Issue where
  "server_issue =
     \<lparr>Issue_Pos = example_fset 110,
      Message = ''Result of NewServer is ignored, but it might return an error'',
      Severity = ''warning''\<rparr>"

section \<open>Properties of the linter\<close>

lemma Split_not_Nil: "Split s sep \<noteq> []"
  by (induction s) (auto split: list.splits)

lemma keys_delete: "fst ` set (AList.delete k m) = fst ` set m - {k}"
  by (induction m) auto

lemma delete_if_has_key: "(if has_key m k then AList.delete k m else m) = AList.delete k m"
  by (simp add: map_of_eq_None_iff)

lemma visit_ident_keys: "fst ` set (visit_ident n m) \<subseteq> fst ` set m"
proof (cases n)
  case (Ident i)
  have "fst ` set (AList.delete (Name i) m) \<subseteq> fst ` set m"
    by (simp add: keys_delete)
  with Ident show ?thesis
    by (simp only: visit_ident.simps delete_if_has_key)
qed simp_all

lemma visit_selector_keys: "fst ` set (visit_selector n m) \<subseteq> fst ` set m"
proof (cases "(n, m)" rule: visit_selector.cases)
  case (1 x sel m')
  have "fst ` set (AList.delete (Name x) m) \<subseteq> fst ` set m"
    by (simp add: keys_delete)
  with 1 show ?thesis
    by (simp only: visit_selector.simps delete_if_has_key prod.inject)
qed simp_all

lemma unused_visit_keys: "fst ` set (unused_visit n m) \<subseteq> fst ` set m"
proof -
  have "fst ` set (visit_selector n (visit_ident n m)) \<subseteq> fst ` set (visit_ident n m)"
    by (rule visit_selector_keys)
  also have "\<dots> \<subseteq> fst ` set m"
    by (rule visit_ident_keys)
  finally show ?thesis
    by (simp only: unused_visit_def)
qed

lemma unused_visit_Ident: "Name i \<notin> fst ` set (unused_visit (Ident i) m)"
proof -
  have "Name i \<notin> fst ` set (visit_ident (Ident i) m)"
    by (simp only: visit_ident.simps delete_if_has_key keys_delete) simp
  moreover have "visit_selector (Ident i) (visit_ident (Ident i) m) = visit_ident (Ident i) m"
    by simp
  ultimately show ?thesis
    unfolding unused_visit_def by metis
qed

lemma unused_visit_Selector:
  "Name i \<notin> fst ` set (unused_visit (SelectorExpr (Ident i) sel) m)"
proof -
  have "visit_ident (SelectorExpr (Ident i) sel) m = m"
    by simp
  moreover have "Name i \<notin> fst ` set (visit_selector (SelectorExpr (Ident i) sel) m)"
    by (simp only: visit_selector.simps delete_if_has_key keys_delete) simp
  ultimately show ?thesis
    unfolding unused_visit_def by metis
qed

lemma fold_unused_visit_keys: "fst ` set (fold unused_visit ns m) \<subseteq> fst ` set m"
proof (induction ns arbitrary: m)
  case Nil
  show ?case by simp
next
  case (Cons n ns)
  have "fst ` set (fold unused_visit ns (unused_visit n m)) \<subseteq> fst ` set (unused_visit n m)"
    by (rule Cons.IH)
  with unused_visit_keys [of n m] show ?case by auto
qed

lemma fold_unused_visit_removes:
  assumes "n \<in> set ns" and "\<And>m. k \<notin> fst ` set (unused_visit n m)"
  shows "k \<notin> fst ` set (fold unused_visit ns m)"
  using assms(1)
proof (induction ns arbitrary: m)
  case Nil
  then show ?case by simp
next
  case (Cons a ns)
  show ?case
  proof (cases "a = n")
    case True
    have "k \<notin> fst ` set (unused_visit n m)" by (rule assms(2))
    with fold_unused_visit_keys [of ns "unused_visit n m"] True show ?thesis by auto
  next
    case False
    with Cons.prems have "n \<in> set ns" by simp
    then show ?thesis using Cons.IH by simp
  qed
qed

lemma names_import_removed:
  "names_import name n \<Longrightarrow> name \<notin> fst ` set (unused_visit n m)"
proof (induction name n rule: names_import.induct)
  case (1 name i)
  then show ?case using unused_visit_Ident [of i m] by simp
next
  case (2 name x sel)
  then show ?case using unused_visit_Selector [of x sel m] by simp
qed simp_all

lemma occurs_not_remaining:
  assumes "occurs name file"
  shows "name \<notin> fst ` set (remaining_imports fset file)"
proof -
  from assms obtain n where n: "n \<in> set (Inspect_File file)" and c: "names_import name n"
    unfolding occurs_def by blast
  have "\<And>m. name \<notin> fst ` set (unused_visit n m)"
    using c by (rule names_import_removed)
  from fold_unused_visit_removes [OF n this] show ?thesis
    unfolding remaining_imports_def .
qed

lemma map_order_set: "map_order \<rho> \<Longrightarrow> set (\<rho> m) = set m"
proof -
  assume "map_order \<rho>"
  then have "mset (\<rho> m) = mset m" by (simp add: map_order_def)
  then show ?thesis by (rule mset_eq_setD)
qed

lemma Message_unused_issue: "Message (unused_issue e) = ''Unused import: '' @ fst e"
  by (simp add: unused_issue_def)

lemma reported_names:
  assumes "map_order \<rho>"
  shows "Message ` set (UnusedImportRule_Check \<rho> fset file)
         = (\<lambda>k. ''Unused import: '' @ k) ` fst ` set (remaining_imports fset file)"
  unfolding UnusedImportRule_Check_def
  by (simp add: map_order_set [OF assms] image_image Message_unused_issue)


lemma map_order_Nil: "map_order \<rho> \<Longrightarrow> \<rho> [] = []"
proof -
  assume "map_order \<rho>"
  then have "mset (\<rho> []) = mset []" unfolding map_order_def by blast
  then show ?thesis by simp
qed



lemma map_order_rev: "map_order rev"
  by (simp add: map_order_def)

lemma map_order_id: "map_order id"
  by (simp add: map_order_def)

lemma Imports_Inspect:
  assumes "ImportSpec (Some i) p path \<in> set (Imports file)"
  shows "Ident i \<in> set (Inspect_File file)"
proof -
  from assms obtain d where d: "d \<in> set (Decls file)"
    and s: "ImportSpec (Some i) p path \<in> set (decl_Imports d)"
    unfolding Imports_def by auto
  from s obtain doc specs where g: "d = GenDecl doc IMPORT specs"
    by (cases d rule: decl_Imports.cases) auto
  with s have "ImportSpec (Some i) p path \<in> set specs" by simp
  then have "Ident i \<in> set (Inspect_Decl d)" unfolding g by force
  with d show ?thesis unfolding Inspect_File_def by auto
qed

lemma mset_Check:
  assumes "map_order \<rho>1" and "map_order \<rho>2"
  shows "mset (Check \<rho>1 rule fset file) = mset (Check \<rho>2 rule fset file)"
proof (cases rule)
  case UnusedImportRule
  have "mset (\<rho>1 (remaining_imports fset file)) = mset (\<rho>2 (remaining_imports fset file))"
    using assms by (simp add: map_order_def)
  then have "image_mset unused_issue (mset (\<rho>1 (remaining_imports fset file)))
           = image_mset unused_issue (mset (\<rho>2 (remaining_imports fset file)))"
    by (rule arg_cong)
  then have "mset (map unused_issue (\<rho>1 (remaining_imports fset file)))
           = mset (map unused_issue (\<rho>2 (remaining_imports fset file)))"
    by simp
  with UnusedImportRule show ?thesis by (simp add: UnusedImportRule_Check_def)
next
  case ErrorReturnRule
  then show ?thesis by simp
qed

lemma mset_concat_Check:
  assumes "map_order \<rho>1" and "map_order \<rho>2"
  shows "mset (concat (map (\<lambda>rule. Check \<rho>1 rule fset file) rules))
       = mset (concat (map (\<lambda>rule. Check \<rho>2 rule fset file) rules))"
  by (induction rules) (simp_all add: mset_Check [OF assms])

lemma mset_short_eq:
  assumes "mset xs = mset ys" and "length ys \<le> 1"
  shows "xs = ys"
proof (cases ys)
  case Nil
  with assms(1) show ?thesis by simp
next
  case (Cons y zs)
  with assms(2) have ys: "ys = [y]" by simp
  with assms(1) have "mset xs = {#y#}" by simp
  then have "xs = [y]" by (simp add: mset_single_iff)
  with ys show ?thesis by simp
qed

lemma Check_short:
  assumes "map_order \<rho>1" and "map_order \<rho>2" and "length (remaining_imports fset file) \<le> 1"
  shows "Check \<rho>1 rule fset file = Check \<rho>2 rule fset file"
proof (cases rule)
  case UnusedImportRule
  let ?m = "remaining_imports fset file"
  have "\<rho>1 ?m = ?m" using assms(1,3) by (intro mset_short_eq) (simp_all add: map_order_def)
  moreover have "\<rho>2 ?m = ?m" using assms(2,3) by (intro mset_short_eq) (simp_all add: map_order_def)
  ultimately show ?thesis using UnusedImportRule by (simp add: UnusedImportRule_Check_def)
next
  case ErrorReturnRule
  then show ?thesis by simp
qed

lemmas example_defs = remaining_imports_def collect_imports_def Imports_def
  unused_imports_file_def used_imports_file_def
      example_main_def Inspect_File_def Inspect_FieldList_def quoted_def Trim_def TrimLeft_def
      ident_at_def unused_visit_def

lemma same_but_import_order_refl: "same_but_import_order xs xs"
  by (simp add: same_but_import_order_def list_all2_same)

lemma same_but_import_order_append:
  assumes "same_but_import_order xs ys" and "same_but_import_order xs' ys'"
  shows "same_but_import_order (xs @ xs') (ys @ ys')"
  using assms by (simp add: same_but_import_order_def list_all2_appendI)

lemma unused_issue_is_unused: "is_unused_import_issue (unused_issue e)"
  by (simp add: is_unused_import_issue_def unused_issue_def)

lemma same_but_import_order_unused:
  assumes "mset es1 = mset es2"
  shows "same_but_import_order (map unused_issue es1) (map unused_issue es2)"
proof -
  from assms have l: "length es1 = length es2" by (rule mset_eq_length)
  have "list_all2 (\<lambda>x y. x = y \<or> is_unused_import_issue x \<and> is_unused_import_issue y)
          (map unused_issue es1) (map unused_issue es2)"
    using l by (simp add: list_all2_conv_all_nth unused_issue_is_unused)
  moreover have "filter is_unused_import_issue (map unused_issue es) = map unused_issue es" for es
    by (simp add: filter_map comp_def unused_issue_is_unused)
  moreover have "mset (map unused_issue es1) = mset (map unused_issue es2)"
    using assms by (metis mset_map)
  ultimately show ?thesis by (simp add: same_but_import_order_def)
qed

lemma same_but_import_order_Check:
  assumes "map_order \<rho>1" and "map_order \<rho>2"
  shows "same_but_import_order (Check \<rho>1 rule fset file) (Check \<rho>2 rule fset file)"
proof (cases rule)
  case UnusedImportRule
  have "mset (\<rho>1 (remaining_imports fset file)) = mset (\<rho>2 (remaining_imports fset file))"
    using assms by (simp add: map_order_def)
  then show ?thesis using UnusedImportRule
    by (simp add: UnusedImportRule_Check_def same_but_import_order_unused)
next
  case ErrorReturnRule
  then show ?thesis by (simp add: same_but_import_order_refl)
qed

lemma same_but_import_order_concat:
  assumes "map_order \<rho>1" and "map_order \<rho>2"
  shows "same_but_import_order (concat (map (\<lambda>rule. Check \<rho>1 rule fset file) rules))
           (concat (map (\<lambda>rule. Check \<rho>2 rule fset file) rules))"
proof (induction rules)
  case Nil
  show ?case by (simp add: same_but_import_order_refl)
next
  case (Cons r rs)
  from same_but_import_order_Check [OF assms] Cons show ?case
    by (simp add: same_but_import_order_append)
qed

lemma error_visit_not_unused:
  "iss \<in> set (error_visit fset n) \<Longrightarrow> \<not> is_unused_import_issue iss"
proof (induction fset n rule: error_visit.induct)
  case (1 fset lhs rhs)
  then show ?case
    by (auto simp add: ignored_error_def is_unused_import_issue_def
        split: if_splits node.splits)
next
  case (2 fset fn args)
  then show ?case
    by (auto simp add: is_unused_import_issue_def split: option.splits if_splits)
qed simp_all

lemma ErrorReturnRule_not_unused:
  "iss \<in> set (ErrorReturnRule_Check fset file) \<Longrightarrow> \<not> is_unused_import_issue iss"
  by (auto simp add: ErrorReturnRule_Check_def dest: error_visit_not_unused)

subsection \<open>Determinism of a lint run\<close>

text \<open>
  Claim C3, as stated: running lint twice on the same unmodified file yields two identical
  ordered Issue lists. The report loop of \<^verbatim>\<open>UnusedImportRule.Check\<close> ranges over a Go
  map, so the two runs may enumerate the unused imports in different orders. On
  \<open>unused_imports_file\<close> (two unused imports) the run that enumerates the map in one order
  and the run that enumerates it in the reverse order return different lists.
\<close>

theorem lint_twice_differs:
  "map_order id \<and> map_order rev
   \<and> lintFile example_parser id ''main.go'' lint_rules
       \<noteq> lintFile example_parser rev ''main.go'' lint_rules"
  by (simp add: map_order_id map_order_rev lintFile_def example_parser_def lint_rules_def
      UnusedImportRule_Check_def unused_issue_def example_fset_def example_defs)

text \<open>
  Claim C3, amended: two lint runs on the same file, whatever order each run's map
  iteration takes, both fail with the same parse error or return Issue lists that differ
  only in the order of the unused-import Issues: the lists have the same length, they
  agree at every position unless both hold an unused-import Issue there, and they hold
  the same unused-import Issues with the same multiplicities. No Issue of the error-check
  rule counts as an unused-import Issue, so every one of them stands at the same place in
  both lists. In particular the lists are equal as multisets; and when at most one import
  is left unused they are identical.
\<close>

theorem lint_twice_same_issues:
  assumes "map_order \<rho>1" and "map_order \<rho>2"
  shows "rel_sum (=) same_but_import_order
           (lintFile ParseFile \<rho>1 filename rules) (lintFile ParseFile \<rho>2 filename rules)
       \<and> (\<forall>iss \<in> set (ErrorReturnRule_Check fset0 file0). \<not> is_unused_import_issue iss)
       \<and> map_sum id mset (lintFile ParseFile \<rho>1 filename rules)
           = map_sum id mset (lintFile ParseFile \<rho>2 filename rules)
       \<and> (\<forall>fset file. ParseFile filename = Inr (fset, file)
             \<and> length (remaining_imports fset file) \<le> 1 \<longrightarrow>
             lintFile ParseFile \<rho>1 filename rules = lintFile ParseFile \<rho>2 filename rules)"
proof (intro conjI allI impI ballI)
  show "rel_sum (=) same_but_import_order
           (lintFile ParseFile \<rho>1 filename rules) (lintFile ParseFile \<rho>2 filename rules)"
    unfolding lintFile_def
    by (cases "ParseFile filename") (auto simp: same_but_import_order_concat [OF assms])
next
  fix iss
  assume "iss \<in> set (ErrorReturnRule_Check fset0 file0)"
  then show "\<not> is_unused_import_issue iss" by (rule ErrorReturnRule_not_unused)
next
  show "map_sum id mset (lintFile ParseFile \<rho>1 filename rules)
           = map_sum id mset (lintFile ParseFile \<rho>2 filename rules)"
    unfolding lintFile_def
    by (cases "ParseFile filename") (auto simp: mset_concat_Check [OF assms])
next
  fix fset f
  assume a: "ParseFile filename = Inr (fset, f) \<and> length (remaining_imports fset f) \<le> 1"
  then have "\<And>rule. Check \<rho>1 rule fset f = Check \<rho>2 rule fset f"
    using Check_short [OF assms] by blast
  with a show "lintFile ParseFile \<rho>1 filename rules = lintFile ParseFile \<rho>2 filename rules"
    unfolding lintFile_def by simp
qed

lemmas lint_example_defs = lintFile_def example_parser_def lint_rules_def
  UnusedImportRule_Check_def ErrorReturnRule_Check_def unused_issue_def fallible_name_def
  HasPrefix_def os_issue_def filepath_issue_def server_issue_def

theorem lint_twice_same_issues_witness:
  "lintFile example_parser id ''main.go'' lint_rules
     = Inr [os_issue, filepath_issue, server_issue]
   \<and> lintFile example_parser rev ''main.go'' lint_rules
       = Inr [filepath_issue, os_issue, server_issue]
   \<and> same_but_import_order [os_issue, filepath_issue, server_issue]
         [filepath_issue, os_issue, server_issue]
   \<and> \<not> is_unused_import_issue server_issue
   \<and> \<not> same_but_import_order [os_issue, filepath_issue, server_issue]
           [server_issue, filepath_issue, os_issue]
   \<and> lintFile example_parser id ''used.go'' lint_rules
       = lintFile example_parser rev ''used.go'' lint_rules
   \<and> lintFile example_parser rev ''used.go'' lint_rules = Inr [server_issue]"
proof -
  have o: "map_order id" "map_order rev" by (rule map_order_id, rule map_order_rev)
  have m1: "lintFile example_parser id ''main.go'' lint_rules
              = Inr [os_issue, filepath_issue, server_issue]"
    by (simp add: lint_example_defs example_defs)
  have m2: "lintFile example_parser rev ''main.go'' lint_rules
              = Inr [filepath_issue, os_issue, server_issue]"
    by (simp add: lint_example_defs example_defs)
  have e: "server_issue \<in> set (ErrorReturnRule_Check example_fset unused_imports_file)"
    by (simp add: lint_example_defs example_defs)
  have p: "example_parser ''used.go'' = Inr (example_fset, used_imports_file) \<and>
          length (remaining_imports example_fset used_imports_file) \<le> 1"
    by (simp add: example_parser_def example_defs)
  have r: "lintFile example_parser rev ''used.go'' lint_rules = Inr [server_issue]"
    by (simp add: lint_example_defs example_defs o map_order_Nil)
  note t1 = lint_twice_same_issues [OF o, of example_parser "''main.go''" lint_rules
              example_fset unused_imports_file]
  note t2 = lint_twice_same_issues [OF o, of example_parser "''used.go''" lint_rules
              example_fset unused_imports_file]
  from t1 have s: "same_but_import_order [os_issue, filepath_issue, server_issue]
         [filepath_issue, os_issue, server_issue]"
    by (simp add: m1 m2)
  from t1 e have n: "\<not> is_unused_import_issue server_issue" by blast
  have d: "os_issue \<noteq> server_issue"
    by (simp add: os_issue_def server_issue_def)
  from n d have w: "\<not> same_but_import_order [os_issue, filepath_issue, server_issue]
           [server_issue, filepath_issue, os_issue]"
    by (simp add: same_but_import_order_def)
  from t2 p have u: "lintFile example_parser id ''used.go'' lint_rules
       = lintFile example_parser rev ''used.go'' lint_rules"
    by blast
  from m1 m2 s n w u r show ?thesis by blast
qed

subsection \<open>Imports that are used\<close>










subsection \<open>Named imports\<close>

text \<open>
  Claim C10: a named import \<^verbatim>\<open>import foo "pkg"\<close> is never reported as unused, also when
  the alias is referenced nowhere else: \<^verbatim>\<open>ast.Inspect\<close> visits the name identifier of the
  import spec itself, and that visit deletes the name from the map before the report loop.
\<close>

theorem named_import_never_reported:
  assumes "map_order \<rho>" and "ImportSpec (Some i) p path \<in> set (Imports file)"
  shows "''Unused import: '' @ Name i \<notin> Message ` set (UnusedImportRule_Check \<rho> fset file)"
proof -
  have "Ident i \<in> set (Inspect_File file)" using assms(2) by (rule Imports_Inspect)
  then have "occurs (Name i) file" unfolding occurs_def by force
  then have "Name i \<notin> fst ` set (remaining_imports fset file)"
    by (rule occurs_not_remaining)
  then show ?thesis unfolding reported_names [OF assms(1)] by auto
qed

theorem named_import_never_reported_witness:
  "ImportSpec (Some (ident_at 30 ''foo'')) 34 (quoted ''example.com/pkg'')
     \<in> set (Imports used_imports_file)
   \<and> ''Unused import: foo''
         \<notin> Message ` set (UnusedImportRule_Check rev example_fset used_imports_file)"
proof -
  have i: "ImportSpec (Some (ident_at 30 ''foo'')) 34 (quoted ''example.com/pkg'')
             \<in> set (Imports used_imports_file)"
    by (simp add: Imports_def used_imports_file_def)
  from named_import_never_reported [OF map_order_rev i, of example_fset] i
  show ?thesis by (simp add: ident_at_def)
qed

section \<open>Properties of the refactorings\<close>

subsection \<open>Identifiers under the update in place\<close>

lemma node_Ident_Idents: "concat (map (node_Ident \<circ> Ident) is) = is"
  by (induction "is") simp_all

lemma concat_map_concat:
  "concat (map g (concat xss)) = concat (map (\<lambda>xs. concat (map g xs)) xss)"
  by (induction xss) simp_all

lemma Node_Idents_list:
  "concat (map node_Ident (concat (map Inspect ns))) = concat (map Node_Idents ns)"
  unfolding Node_Idents_def by (simp add: concat_map_concat comp_def)

lemma Field_Idents_list:
  "concat (map node_Ident (concat (map Inspect_Field fl))) = concat (map Field_Idents fl)"
  unfolding Field_Idents_def by (simp add: concat_map_concat comp_def)

lemma Node_Idents_simps:
  "Node_Idents (Ident i) = [i]"
  "Node_Idents (BasicLit p v) = []"
  "Node_Idents (SelectorExpr x sel) = Node_Idents x @ [sel]"
  "Node_Idents (StarExpr p x) = Node_Idents x"
  "Node_Idents (CallExpr fn args) = Node_Idents fn @ concat (map Node_Idents args)"
  "Node_Idents (StructType p fl) = concat (map Field_Idents fl)"
  "Node_Idents (AssignStmt lhs rhs) = concat (map Node_Idents lhs) @ concat (map Node_Idents rhs)"
  "Node_Idents (ExprStmt x) = Node_Idents x"
  "Node_Idents (Other k p ns) = concat (map Node_Idents ns)"
  using Node_Idents_list Field_Idents_list
  by (simp_all add: Node_Idents_def)

lemma Field_Idents_simp:
  "Field_Idents (Field doc names ty tag comment) = names @ Node_Idents ty"
  by (cases tag) (auto simp add: Field_Idents_def Node_Idents_def node_Ident_Idents)


lemma map_Idents_id:
  "(\<And>i. i \<in> set (Node_Idents n) \<Longrightarrow> f i = i) \<Longrightarrow> map_Idents f n = n"
  "(\<And>i. i \<in> set (Field_Idents fd) \<Longrightarrow> f i = i) \<Longrightarrow> map_Idents_Field f fd = fd"
proof (induction n and fd)
  case (CallExpr fn args)
  have "map_Idents f fn = fn"
    by (rule CallExpr.IH) (use CallExpr.prems in \<open>simp add: Node_Idents_simps\<close>)
  moreover have "map (map_Idents f) args = args"
    by (intro map_idI CallExpr.IH) (use CallExpr.prems in \<open>auto simp add: Node_Idents_simps\<close>)
  ultimately show ?case by simp
next
  case (StructType p fl)
  have "map (map_Idents_Field f) fl = fl"
    by (intro map_idI StructType.IH) (use StructType.prems in \<open>auto simp add: Node_Idents_simps\<close>)
  then show ?case by simp
next
  case (AssignStmt lhs rhs)
  have "map (map_Idents f) lhs = lhs"
    by (intro map_idI AssignStmt.IH) (use AssignStmt.prems in \<open>auto simp add: Node_Idents_simps\<close>)
  moreover have "map (map_Idents f) rhs = rhs"
    by (intro map_idI AssignStmt.IH) (use AssignStmt.prems in \<open>auto simp add: Node_Idents_simps\<close>)
  ultimately show ?case by simp
next
  case (Other k p ns)
  have "map (map_Idents f) ns = ns"
    by (intro map_idI Other.IH) (use Other.prems in \<open>auto simp add: Node_Idents_simps\<close>)
  then show ?case by simp
next
  case (Field doc names ty tag comment)
  have "map f names = names"
    by (intro map_idI) (use Field.prems in \<open>simp add: Field_Idents_simp\<close>)
  moreover have "map_Idents f ty = ty"
    by (rule Field.IH) (use Field.prems in \<open>simp add: Field_Idents_simp\<close>)
  ultimately show ?case by simp
qed (simp_all add: Node_Idents_simps)

lemma map_Idents_comp:
  "map_Idents f (map_Idents g n) = map_Idents (f \<circ> g) n"
  "map_Idents_Field f (map_Idents_Field g fd) = map_Idents_Field (f \<circ> g) fd"
  by (induction n and fd) simp_all


lemma Idents_of_simps:
  "Idents_of [] = []"
  "Idents_of (Ident i # ns) = i # Idents_of ns"
  "Idents_of (BasicLit p v # ns) = Idents_of ns"
  "Idents_of (xs @ ys) = Idents_of xs @ Idents_of ys"
  "Idents_of (map Ident is) = is"
  "Idents_of (Inspect n) = Node_Idents n"
  "Idents_of (concat (map Inspect ns)) = concat (map Node_Idents ns)"
  "Idents_of (Inspect_FieldList fl) = concat (map Field_Idents fl)"
  by (simp_all add: Idents_of_def Node_Idents_def Node_Idents_list Field_Idents_list
      Inspect_FieldList_def node_Ident_Idents)










lemma map_Idents_FieldList_id:
  assumes "\<And>i. i \<in> set (Idents_of (Inspect_FieldList fl)) \<Longrightarrow> f i = i"
  shows "map_Idents_FieldList f fl = fl"
  unfolding map_Idents_FieldList_def
  by (intro map_idI map_Idents_id) (use assms in \<open>auto simp add: Idents_of_simps\<close>)

lemma map_Idents_FieldList_opt_id:
  assumes "\<And>i. i \<in> set (Idents_of (Inspect_FieldList_opt fl)) \<Longrightarrow> f i = i"
  shows "map_option (map_Idents_FieldList f) fl = fl"
proof (cases fl)
  case None
  then show ?thesis by simp
next
  case (Some l)
  with assms have "map_Idents_FieldList f l = l"
    by (intro map_Idents_FieldList_id) simp
  with Some show ?thesis by simp
qed

lemma map_Idents_opt_id:
  assumes "\<And>i. i \<in> set (Idents_of (Inspect_opt b)) \<Longrightarrow> f i = i"
  shows "map_option (map_Idents f) b = b"
proof (cases b)
  case None
  then show ?thesis by simp
next
  case (Some n)
  with assms have "map_Idents f n = n"
    by (intro map_Idents_id) (simp add: Idents_of_simps)
  with Some show ?thesis by simp
qed

lemma map_Idents_nodes_id:
  assumes "\<And>i. i \<in> set (Idents_of (concat (map Inspect ns))) \<Longrightarrow> f i = i"
  shows "map (map_Idents f) ns = ns"
  by (intro map_idI map_Idents_id) (use assms in \<open>auto simp add: Idents_of_simps\<close>)

lemma map_Idents_Spec_id:
  assumes "\<And>i. i \<in> set (Idents_of (Inspect_Spec sp)) \<Longrightarrow> f i = i"
  shows "map_Idents_Spec f sp = sp"
proof (cases sp)
  case (ImportSpec name p path)
  with assms show ?thesis by (cases name) (simp_all add: Idents_of_simps)
next
  case (TypeSpec name tparams ty)
  have "f name = name" using assms TypeSpec by (simp add: Idents_of_simps)
  moreover have "map_Idents_FieldList f tparams = tparams"
    by (rule map_Idents_FieldList_id) (use assms TypeSpec in \<open>simp add: Idents_of_simps(2,4)\<close>)
  moreover have "map_Idents f ty = ty"
    by (rule map_Idents_id) (use assms TypeSpec in \<open>simp add: Idents_of_simps\<close>)
  ultimately show ?thesis using TypeSpec by simp
next
  case (ValueSpec names ty vals)
  have "map f names = names"
    by (rule map_idI) (use assms ValueSpec in \<open>simp add: Idents_of_simps\<close>)
  moreover have "map_option (map_Idents f) ty = ty"
    by (rule map_Idents_opt_id) (use assms ValueSpec in \<open>simp add: Idents_of_simps(4)\<close>)
  moreover have "map (map_Idents f) vals = vals"
    by (rule map_Idents_nodes_id) (use assms ValueSpec in \<open>simp add: Idents_of_simps(4)\<close>)
  ultimately show ?thesis using ValueSpec by simp
qed

lemma Idents_of_concat_mem:
  "x \<in> set xs \<Longrightarrow> i \<in> set (Idents_of (g x)) \<Longrightarrow> i \<in> set (Idents_of (concat (map g xs)))"
  by (auto simp add: Idents_of_def)

lemma map_Idents_Decl_id:
  assumes "\<And>i. i \<in> set (Idents_of (Inspect_Decl d)) \<Longrightarrow> f i = i"
  shows "map_Idents_Decl f d = d"
proof (cases d)
  case (GenDecl doc tok specs)
  have "map (map_Idents_Spec f) specs = specs"
  proof (intro map_idI map_Idents_Spec_id)
    fix sp i
    assume "sp \<in> set specs" and "i \<in> set (Idents_of (Inspect_Spec sp))"
    then have "i \<in> set (Idents_of (concat (map Inspect_Spec specs)))"
      by (rule Idents_of_concat_mem)
    then show "f i = i" using assms GenDecl by simp
  qed
  with GenDecl show ?thesis by simp
next
  case (FuncDecl doc recv name ty body)
  have "f name = name" using assms FuncDecl by (simp add: Idents_of_simps)
  moreover have "map_option (map_Idents_FieldList f) recv = recv"
    by (rule map_Idents_FieldList_opt_id) (use assms FuncDecl in \<open>simp add: Idents_of_simps(2,4)\<close>)
  moreover have "map_Idents_FieldList f (TypeParams ty) = TypeParams ty"
    by (rule map_Idents_FieldList_id) (use assms FuncDecl in \<open>simp add: Idents_of_simps(2,4)\<close>)
  moreover have "map_option (map_Idents_FieldList f) (Params ty) = Params ty"
    by (rule map_Idents_FieldList_opt_id) (use assms FuncDecl in \<open>simp add: Idents_of_simps(2,4)\<close>)
  moreover have "map_option (map_Idents_FieldList f) (Results ty) = Results ty"
    by (rule map_Idents_FieldList_opt_id) (use assms FuncDecl in \<open>simp add: Idents_of_simps(2,4)\<close>)
  moreover have "map_option (map_Idents f) body = body"
    by (rule map_Idents_opt_id) (use assms FuncDecl in \<open>simp add: Idents_of_simps(2,4)\<close>)
  ultimately show ?thesis using FuncDecl by (simp add: map_Idents_FuncType_def)
qed

lemma map_Idents_File_id:
  assumes "\<And>i. i \<in> set (Idents file) \<Longrightarrow> f i = i"
  shows "map_Idents_File f file = file"
proof -
  have n: "f (File_Name file) = File_Name file"
    using assms by (simp add: Idents_def Inspect_File_def)
  have "map (map_Idents_Decl f) (Decls file) = Decls file"
  proof (intro map_idI map_Idents_Decl_id)
    fix d i
    assume "d \<in> set (Decls file)" and "i \<in> set (Idents_of (Inspect_Decl d))"
    then have "i \<in> set (Idents_of (concat (map Inspect_Decl (Decls file))))"
      by (rule Idents_of_concat_mem)
    then show "f i = i" using assms by (simp add: Idents_def Inspect_File_def Idents_of_def)
  qed
  with n show ?thesis by (simp add: map_Idents_File_def)
qed

lemma map_Idents_FieldList_comp:
  "map_Idents_FieldList f (map_Idents_FieldList g fl) = map_Idents_FieldList (f \<circ> g) fl"
  by (simp add: map_Idents_FieldList_def map_Idents_comp)

lemma map_Idents_Spec_comp:
  "map_Idents_Spec f (map_Idents_Spec g sp) = map_Idents_Spec (f \<circ> g) sp"
  by (cases sp)
     (simp_all add: map_Idents_comp map_Idents_FieldList_comp option.map_comp comp_def [of "map_Idents f"])

lemma map_Idents_Decl_comp:
  "map_Idents_Decl f (map_Idents_Decl g d) = map_Idents_Decl (f \<circ> g) d"
proof (cases d)
  case (GenDecl doc tok specs)
  then show ?thesis by (simp add: map_Idents_Spec_comp comp_def [of "map_Idents_Spec f"])
next
  case (FuncDecl doc recv name ty body)
  then show ?thesis
    by (simp add: map_Idents_FuncType_def option.map_comp map_Idents_comp
        map_Idents_FieldList_comp comp_def [of "map_Idents f"]
        comp_def [of "map_Idents_FieldList f"])
qed

lemma map_Idents_File_comp:
  "map_Idents_File f (map_Idents_File g file) = map_Idents_File (f \<circ> g) file"
  by (simp add: map_Idents_File_def map_Idents_Decl_comp comp_def [of "map_Idents_Decl f"])





subsection \<open>Rename-variable and types\<close>



lemmas refactor_defs = refactor_file_def two_functions_file_def resolved_def ident_at_def
  Idents_def Inspect_File_def Inspect_FieldList_def


subsection \<open>Rename-function there and back\<close>

lemma isFunctionIdent_Name: "isFunctionIdent (i\<lparr>Name := n\<rparr>) = isFunctionIdent i"
  by (simp split: option.splits ObjKind.splits ObjDecl.splits CallFun.splits)

lemma there_and_back_eq:
  "rename_there_and_back a b file
     = map_Idents_File (rename_visit isFunctionIdent b a \<circ> rename_visit isFunctionIdent a b) file"
  by (simp add: rename_there_and_back_def Rename_Apply_def map_Idents_File_comp)

lemma there_and_back_ident:
  "a = b \<or> \<not> renames isFunctionIdent b i \<Longrightarrow>
   (rename_visit isFunctionIdent b a \<circ> rename_visit isFunctionIdent a b) i = i"
  by (auto simp add: rename_visit_def renames_def isFunctionIdent_Name
      simp del: isFunctionIdent.simps)

lemma there_and_back_idem:
  "(rename_visit isFunctionIdent b a \<circ> rename_visit isFunctionIdent a b)
     ((rename_visit isFunctionIdent b a \<circ> rename_visit isFunctionIdent a b) i)
   = (rename_visit isFunctionIdent b a \<circ> rename_visit isFunctionIdent a b) i"
  by (auto simp add: rename_visit_def renames_def isFunctionIdent_Name
      simp del: isFunctionIdent.simps)

text \<open>
  Claim C6, amended: rename-function from \<open>a\<close> to \<open>b\<close> followed by rename-function from
  \<open>b\<close> to \<open>a\<close> gives back the original tree whenever \<open>a = b\<close> or the original tree has
  no function identifier named \<open>b\<close>; and for every tree the composed operation is
  idempotent.
\<close>

theorem rename_function_there_and_back:
  "(a = b \<or> \<not> list_ex (renames isFunctionIdent b) (Idents file) \<longrightarrow>
      rename_there_and_back a b file = file)
   \<and> rename_there_and_back a b (rename_there_and_back a b file)
       = rename_there_and_back a b file"
proof (intro conjI impI)
  assume h: "a = b \<or> \<not> list_ex (renames isFunctionIdent b) (Idents file)"
  have "map_Idents_File
          (rename_visit isFunctionIdent b a \<circ> rename_visit isFunctionIdent a b) file = file"
  proof (rule map_Idents_File_id)
    fix i
    assume "i \<in> set (Idents file)"
    with h have "a = b \<or> \<not> renames isFunctionIdent b i"
      by (auto simp add: list_ex_iff)
    then show "(rename_visit isFunctionIdent b a \<circ> rename_visit isFunctionIdent a b) i = i"
      by (rule there_and_back_ident)
  qed
  then show "rename_there_and_back a b file = file"
    by (simp only: there_and_back_eq)
next
  let ?h = "rename_visit isFunctionIdent b a \<circ> rename_visit isFunctionIdent a b"
  have "?h \<circ> ?h = ?h"
    by (rule ext) (simp only: comp_apply [of ?h ?h] there_and_back_idem)
  then show "rename_there_and_back a b (rename_there_and_back a b file)
       = rename_there_and_back a b file"
    by (simp only: there_and_back_eq map_Idents_File_comp)
qed

text \<open>
  Claim C6, as stated, fails on a tree that already has a function named \<open>b\<close>: the second
  rename cannot tell the old \<open>b\<close> from the renamed \<open>a\<close>. On \<^verbatim>\<open>func a() {}; func b() {}\<close>
  the two renames end with two functions named \<open>a\<close>.
\<close>

theorem rename_function_there_and_back_differs:
  "rename_there_and_back ''a'' ''b'' two_functions_file \<noteq> two_functions_file"
  by (simp add: rename_there_and_back_def Rename_Apply_def map_Idents_File_def
      map_Idents_FuncType_def rename_visit_def renames_def two_functions_file_def
      resolved_def ident_at_def)

theorem rename_function_there_and_back_witness:
  "\<not> list_ex (renames isFunctionIdent ''b'') (Idents refactor_file)
   \<and> fst (Apply (RenameFunction ''a'' ''b'') refactor_file)
   \<and> rename_there_and_back ''a'' ''b'' refactor_file = refactor_file"
proof -
  have n: "\<not> list_ex (renames isFunctionIdent ''b'') (Idents refactor_file)"
    by (simp add: refactor_defs renames_def)
  have c: "fst (Apply (RenameFunction ''a'' ''b'') refactor_file)"
    by (simp add: Rename_Apply_def refactor_defs renames_def)
  from rename_function_there_and_back [of "''a''" "''b''" refactor_file] n c
  show ?thesis by (simp del: Apply.simps)
qed

subsection \<open>Add-parameter\<close>

lemma filter_CallExpr_Idents: "filter is_CallExpr (map Ident is) = []"
  by (induction "is") simp_all

lemma Calls_newParam: "filter is_CallExpr (Inspect_Field (newParam pn pt)) = []"
  by (simp add: newParam_def)

lemma Calls_add_param:
  "filter is_CallExpr (Inspect_Decl (add_param f pn pt d)) = filter is_CallExpr (Inspect_Decl d)"
proof (cases d)
  case (GenDecl doc tok specs)
  then show ?thesis by simp
next
  case (FuncDecl doc recv name ty body)
  have "filter is_CallExpr
          (Inspect_FieldList ((case Params ty of None \<Rightarrow> [] | Some l \<Rightarrow> l) @ [newParam pn pt]))
        = filter is_CallExpr (Inspect_FieldList_opt (Params ty))"
    by (cases "Params ty") (simp_all add: Inspect_FieldList_def Calls_newParam)
  with FuncDecl show ?thesis by simp
qed

text \<open>
  Claim C7, as stated, has only the matching function declaration modified. The visitor
  matches every \<^verbatim>\<open>*ast.FuncDecl\<close> by name and does not look at the receiver: in
  \<^verbatim>\<open>func (s S) a() {}; func a() {}\<close> add-parameter for \<open>a\<close> appends the parameter to the
  method as well as to the function.
\<close>

theorem add_parameter_changes_method:
  "Decls (snd (Apply (AddParameter ''a'' ''y'' ''string'') method_file))
     = [FuncDecl []
          (Some [Field [] [resolved 26 ''s'' Var DeclField] (Ident (ident_at 28 ''S''))
                   None []])
          (ident_at 31 ''a'')
          \<lparr>TypeParams = [],
           Params = Some [Field [] [NewIdent ''y''] (Ident (NewIdent ''string'')) None []],
           Results = None\<rparr>
          (Some (Other ''BlockStmt'' 35 [])),
        FuncDecl [] None (resolved 44 ''a'' Fun (DeclFuncDecl 44))
          \<lparr>TypeParams = [],
           Params = Some [Field [] [NewIdent ''y''] (Ident (NewIdent ''string'')) None []],
           Results = None\<rparr>
          (Some (Other ''BlockStmt'' 48 []))]
   \<and> Decls (snd (Apply (AddParameter ''a'' ''y'' ''string'') method_file)) ! 0
       \<noteq> Decls method_file ! 0"
  by (simp add: AddParameter_Apply_def method_file_def newParam_def resolved_def ident_at_def)

text \<open>
  Claim C7, amended: add-parameter for \<open>f\<close> with parameter name \<open>pn\<close> and type \<open>pt\<close> appends
  the parameter \<open>pn pt\<close> (two fresh identifiers without position or object) at the end of
  the parameter list of every declaration named \<open>f\<close>, functions and methods of any
  receiver alike, and changes nothing else: the call expressions of the file, callee and
  arguments, are the same before and after; the package name is the same; each
  declaration named \<open>f\<close> gets the parameter with everything else as it was, and every other
  declaration is unchanged. It reports a change exactly when some declaration is named
  \<open>f\<close>.
\<close>

theorem add_parameter_keeps_calls:
  "Calls (snd (Apply (AddParameter f pn pt) file)) = Calls file
   \<and> File_Name (snd (Apply (AddParameter f pn pt) file)) = File_Name file
   \<and> list_all2
        (params_appended f
           (Field [] [\<lparr>NamePos = NoPos, Name = pn, Obj = None\<rparr>]
              (Ident \<lparr>NamePos = NoPos, Name = pt, Obj = None\<rparr>) None []))
        (Decls file) (Decls (snd (Apply (AddParameter f pn pt) file)))
   \<and> fst (Apply (AddParameter f pn pt) file) = list_ex (declares f) (Decls file)"
proof (intro conjI)
  have "filter is_CallExpr (concat (map Inspect_Decl (map (add_param f pn pt) ds)))
        = filter is_CallExpr (concat (map Inspect_Decl ds))" for ds
    by (induction ds) (simp_all add: Calls_add_param)
  then show "Calls (snd (Apply (AddParameter f pn pt) file)) = Calls file"
    by (simp add: Calls_def AddParameter_Apply_def Inspect_File_def)
next
  show "File_Name (snd (Apply (AddParameter f pn pt) file)) = File_Name file"
    by (simp add: AddParameter_Apply_def)
next
  have "params_appended f (newParam pn pt) d (add_param f pn pt d)" for d
    by (cases d) simp_all
  then have "list_all2 (params_appended f (newParam pn pt))
        (Decls file) (Decls (snd (Apply (AddParameter f pn pt) file)))"
    by (simp add: AddParameter_Apply_def list_all2_map2 list_all2_same)
  then show "list_all2
        (params_appended f
           (Field [] [\<lparr>NamePos = NoPos, Name = pn, Obj = None\<rparr>]
              (Ident \<lparr>NamePos = NoPos, Name = pt, Obj = None\<rparr>) None []))
        (Decls file) (Decls (snd (Apply (AddParameter f pn pt) file)))"
    by (simp only: newParam_def NewIdent_def)
next
  have "list_ex (is_named_FuncDecl f) ds = list_ex (declares f) ds" for ds
  proof (induction ds)
    case Nil
    show ?case by simp
  next
    case (Cons d ds)
    then show ?case by (cases d) simp_all
  qed
  then show "fst (Apply (AddParameter f pn pt) file) = list_ex (declares f) (Decls file)"
    by (simp add: AddParameter_Apply_def)
qed

theorem add_parameter_keeps_calls_witness:
  "fst (Apply (AddParameter ''a'' ''y'' ''string'') refactor_file)
   \<and> Calls (snd (Apply (AddParameter ''a'' ''y'' ''string'') refactor_file))
       = [CallExpr (Ident (resolved 69 ''a'' Fun (DeclFuncDecl 45))) [Ident (ident_at 71 ''v'')]]
   \<and> Decls (snd (Apply (AddParameter ''a'' ''y'' ''string'') refactor_file)) ! 1
       = FuncDecl [] None (resolved 45 ''a'' Fun (DeclFuncDecl 45))
           \<lparr>TypeParams = [],
            Params = Some [Field [] [resolved 47 ''x'' Var DeclField]
                             (Ident (resolved 49 ''T'' Typ (DeclTypeSpec 20))) None [],
                           Field [] [NewIdent ''y''] (Ident (NewIdent ''string'')) None []],
            Results = None\<rparr>
           (Some (Other ''BlockStmt'' 52 []))"
proof -
  have c: "Calls refactor_file
       = [CallExpr (Ident (resolved 69 ''a'' Fun (DeclFuncDecl 45))) [Ident (ident_at 71 ''v'')]]"
    by (simp add: Calls_def refactor_file_def Inspect_File_def Inspect_FieldList_def)
  have d: "length (Decls refactor_file) = 3"
    "Decls refactor_file ! 1 = FuncDecl [] None (resolved 45 ''a'' Fun (DeclFuncDecl 45))
           \<lparr>TypeParams = [],
            Params = Some [Field [] [resolved 47 ''x'' Var DeclField]
                             (Ident (resolved 49 ''T'' Typ (DeclTypeSpec 20))) None []],
            Results = None\<rparr>
           (Some (Other ''BlockStmt'' 52 []))"
    by (simp_all add: refactor_file_def)
  have n: "Name (resolved 45 ''a'' Fun (DeclFuncDecl 45)) = ''a''"
    by (simp add: resolved_def)
  have f: "fst (Apply (AddParameter ''a'' ''y'' ''string'') refactor_file)"
    by (simp add: AddParameter_Apply_def refactor_file_def resolved_def)
  note t = add_parameter_keeps_calls [of "''a''" "''y''" "''string''" refactor_file]
  from t have "list_all2 (params_appended ''a'' (newParam ''y'' ''string''))
        (Decls refactor_file)
        (Decls (snd (Apply (AddParameter ''a'' ''y'' ''string'') refactor_file)))"
    by (simp only: newParam_def NewIdent_def)
  then have "params_appended ''a'' (newParam ''y'' ''string'') (Decls refactor_file ! 1)
      (Decls (snd (Apply (AddParameter ''a'' ''y'' ''string'') refactor_file)) ! 1)"
    by (rule list_all2_nthD) (simp add: d(1))
  with t c d(2) n f show ?thesis
    by (simp add: newParam_def del: Apply.simps)
qed

subsection \<open>Validation of the rename flags\<close>

lemma case_not_two:
  "length xs \<noteq> 2 \<Longrightarrow> (case xs of [] \<Rightarrow> e | [x] \<Rightarrow> e | [x, y] \<Rightarrow> g x y | x # y # z # zs \<Rightarrow> e) = e"
  by (auto split: list.splits)

lemma rename_flag_malformed:
  assumes "malformed val"
  shows "rename_flag val flag_name mk rs =
    Inl (''Invalid format for -'' @ flag_name @ '', expected ''
                      @ [CHR 0x27] @ ''old:new'' @ [CHR 0x27])"
  using assms unfolding malformed_def rename_flag_def
  by (auto split: list.splits)

lemma build_malformed:
  assumes "malformed (renameFn flags) \<or> malformed (renameType flags) \<or> malformed (renameVar flags)"
  shows "\<exists>msg. build_refactorings flags = Inl msg"
proof (cases "malformed (renameFn flags)")
  case True
  then show ?thesis by (simp add: build_refactorings_def rename_flag_malformed)
next
  case f: False
  show ?thesis
  proof (cases "malformed (renameType flags)")
    case True
    then show ?thesis
      by (simp add: build_refactorings_def rename_flag_malformed split: sum.splits)
  next
    case False
    with f assms have "malformed (renameVar flags)" by blast
    then show ?thesis
      by (simp add: build_refactorings_def rename_flag_malformed split: sum.splits)
  qed
qed

text \<open>
  Claim C8, amended: a rename flag that is set and does not split at \<^verbatim>\<open>":"\<close> into
  exactly two parts is rejected before any file is read: \<^verbatim>\<open>main\<close> ends with exit code 1
  and the message for the first such flag, and no file is parsed, changed or written.
  Whether the two parts are empty is not checked.
\<close>

theorem malformed_rename_rejected:
  assumes "malformed (renameFn flags) \<or> malformed (renameType flags) \<or> malformed (renameVar flags)"
  shows "\<exists>msg. build_refactorings flags = Inl msg \<and> main env flags = Exit 1 msg"
proof -
  from build_malformed [OF assms] obtain msg where "build_refactorings flags = Inl msg" ..
  then show ?thesis by (simp add: main_def)
qed

text \<open>
  Claim C8, as stated, asks for two non-empty parts. \<^verbatim>\<open>main\<close> tests \<^verbatim>\<open>len(parts) != 2\<close>
  only: \<^verbatim>\<open>-rename-fn a:\<close> splits into \<^verbatim>\<open>"a"\<close> and the empty string, the refactoring
  is built with an empty new name, the file is processed and its tree is changed.
\<close>

theorem empty_part_accepted:
  "Split (renameFn empty_new_flags) CHR '':'' = [''a'', '''']
   \<and> build_refactorings empty_new_flags = Inr [RenameFunction ''a'' '''']
   \<and> main example_env empty_new_flags
       = Done [(''a.go'',
                Inr \<lparr>tree = snd (Apply (RenameFunction ''a'' '''') refactor_file),
                     written = None\<rparr>)]
   \<and> snd (Apply (RenameFunction ''a'' '''') refactor_file) \<noteq> refactor_file"
proof -
  have s: "Split (renameFn empty_new_flags) CHR '':'' = [''a'', '''']"
    by (simp add: empty_new_flags_def no_flags_def)
  have b: "build_refactorings empty_new_flags = Inr [RenameFunction ''a'' '''']"
    by (simp add: build_refactorings_def rename_flag_def addParam_flag_def
        empty_new_flags_def no_flags_def)
  have c: "fst (Apply (RenameFunction ''a'' '''') refactor_file)"
    by (simp add: Rename_Apply_def refactor_defs renames_def)
  have m: "main example_env empty_new_flags
       = Done [(''a.go'',
                Inr \<lparr>tree = snd (Apply (RenameFunction ''a'' '''') refactor_file),
                     written = None\<rparr>)]"
  proof -
    have f: "inputDir empty_new_flags = ''.''" "recursive empty_new_flags = False"
      "write_flag empty_new_flags = False"
      by (simp_all add: empty_new_flags_def no_flags_def)
    show ?thesis
      by (simp add: main_def b applyRefactorings_def example_env_def split_beta f
          del: Apply.simps)
  qed
  have d: "snd (Apply (RenameFunction ''a'' '''') refactor_file) \<noteq> refactor_file"
    by (simp add: Rename_Apply_def map_Idents_File_def
      map_Idents_FuncType_def rename_visit_def renames_def refactor_file_def
      resolved_def ident_at_def)
  from s b m d show ?thesis by blast
qed

theorem malformed_rename_rejected_witness:
  "malformed (renameFn one_part_flags)
   \<and> main example_env one_part_flags
       = Exit 1 (''Invalid format for -rename-fn, expected '' @ [CHR 0x27] @ ''old:new'' @ [CHR 0x27])
   \<and> malformed (renameVar three_part_flags)
   \<and> main example_env three_part_flags
       = Exit 1 (''Invalid format for -rename-var, expected '' @ [CHR 0x27] @ ''old:new'' @ [CHR 0x27])"
proof -
  have a: "malformed (renameFn one_part_flags)"
    by (simp add: malformed_def one_part_flags_def no_flags_def)
  have b: "malformed (renameVar three_part_flags)"
    by (simp add: malformed_def three_part_flags_def no_flags_def)
  have c: "build_refactorings one_part_flags
       = Inl (''Invalid format for -rename-fn, expected '' @ [CHR 0x27] @ ''old:new'' @ [CHR 0x27])"
    by (simp add: build_refactorings_def rename_flag_def one_part_flags_def no_flags_def)
  have d: "build_refactorings three_part_flags
       = Inl (''Invalid format for -rename-var, expected '' @ [CHR 0x27] @ ''old:new'' @ [CHR 0x27])"
    by (simp add: build_refactorings_def rename_flag_def three_part_flags_def no_flags_def)
  from a have a': "malformed (renameFn one_part_flags) \<or> malformed (renameType one_part_flags)
      \<or> malformed (renameVar one_part_flags)" by blast
  from b have b': "malformed (renameFn three_part_flags) \<or> malformed (renameType three_part_flags)
      \<or> malformed (renameVar three_part_flags)" by blast
  from malformed_rename_rejected [OF a', of example_env]
       malformed_rename_rejected [OF b', of example_env] a b c d
  show ?thesis by auto
qed

section \<open>Properties of the code generator\<close>

subsection \<open>Parsing the template\<close>

text \<open>
  The first identifier of the template that is neither registered nor a builtin is
  \<^verbatim>\<open>GetSQLType\<close>, in the schema function. With that one name registered as well, every
  check passes: nothing else stops the parse.
\<close>

lemma Parse_tmplText: "Parse FuncMap tmplText = Inl (FunctionNotDefined ''GetSQLType'')"
  by (simp add: Parse_def tmplText_def FuncMap_def builtins_def)

lemma Parse_tmplText_registered: "Parse (''GetSQLType'' # FuncMap) tmplText = Inr tmplText"
  by (simp add: Parse_def tmplText_def FuncMap_def builtins_def)

text \<open>
  Claim C2: for every list of struct shapes, every package name and every setting of the
  flags, \<^verbatim>\<open>GenerateCode\<close> returns an error and no code: the template calls
  \<^verbatim>\<open>GetSQLType\<close>, which the function map does not hold, so \<^verbatim>\<open>tmpl.Parse\<close> fails and
  the function returns the empty string with the parse error before the template is
  executed.
\<close>

theorem GenerateCode_always_fails:
  "GenerateCode env flags structs pkgName
     = ('''', Some (ParseTemplateFailed (FunctionNotDefined ''GetSQLType'')))"
  by (simp add: GenerateCode_def Parse_tmplText)

text \<open>
  Claim C1 says that for the shape \<^verbatim>\<open>{id uint64, name string, active bool}\<close> with SQL
  generation enabled the generated text holds a CREATE TABLE statement. The code returns
  the empty text and the parse error on that input: the schema part of the template is
  there, the helper it calls is not.
\<close>

theorem GenerateCode_sqlite_no_schema:
  "GenerateCode example_gen_env sqlite_flags [user_struct] ''models''
     = ('''', Some (ParseTemplateFailed (FunctionNotDefined ''GetSQLType'')))
   \<and> \<not> sublist ''CREATE TABLE''
         (fst (GenerateCode example_gen_env sqlite_flags [user_struct] ''models''))"
  by (simp add: GenerateCode_def Parse_tmplText)

subsection \<open>The order of the extracted fields\<close>

text \<open>
  The fields of an extracted struct are the first names of the named fields of the
  declaration, in the order of the source; they are all declared names, in order, when
  no field declares more than one name, and a subsequence of them in general.
\<close>

lemma field_info_Name:
  "map FieldInfo_Name (List.map_filter (field_info env) fl) = first_names fl"
proof (induction fl)
  case Nil
  show ?case by (simp add: first_names_def List.map_filter_simps)
next
  case (Cons fd fl)
  obtain doc names ty tag comment where fd: "fd = Field doc names ty tag comment"
    by (cases fd)
  show ?case
  proof (cases names)
    case Nil
    with fd Cons show ?thesis by (simp add: first_names_def List.map_filter_simps)
  next
    case (Cons name rest)
    with fd Cons.IH show ?thesis
      by (cases tag) (auto simp add: first_names_def List.map_filter_simps Let_def)
  qed
qed

lemma first_names_subseq: "subseq (first_names fl) (declared_names fl)"
proof (induction fl)
  case Nil
  show ?case by (simp add: first_names_def declared_names_def)
next
  case (Cons fd fl)
  have "subseq (take 1 (field_Names fd)) (field_Names fd)"
    by (cases "field_Names fd") simp_all
  with Cons show ?case
    by (simp add: first_names_def declared_names_def list_emb_append_mono)
qed

lemma first_names_all:
  assumes "\<forall>fd \<in> set fl. length (field_Names fd) \<le> 1"
  shows "first_names fl = declared_names fl"
  using assms by (induction fl) (simp_all add: first_names_def declared_names_def)

text \<open>
  Claim C9 says that the extracted shape lists the fields of the struct in the order of
  their declaration, with only embedded fields skipped, and that generated constructors
  and column lists keep that order. The field loop takes \<^verbatim>\<open>field.Names[0]\<close> only, so for
  \<^verbatim>\<open>type T struct { A, B int; C string }\<close> the shape lists \<open>A\<close> and \<open>C\<close> and not \<open>B\<close>; and
  \<^verbatim>\<open>GenerateCode\<close> returns no code for the shape.
\<close>

theorem ExtractStructs_drops_second_name:
  "ExtractStructs example_gen_env ''t.go''
     = Inr ([\<lparr>StructInfo_Name = ''T'',
              StructInfo_Fields =
                [\<lparr>FieldInfo_Name = ''A'', FieldInfo_Type = ''int'', FieldInfo_Tag = '''',
                  FieldInfo_JSONName = ''a'', FieldInfo_DBName = ''a'',
                  FieldInfo_Comments = []\<rparr>,
                 \<lparr>FieldInfo_Name = ''C'', FieldInfo_Type = ''string'', FieldInfo_Tag = '''',
                  FieldInfo_JSONName = ''c'', FieldInfo_DBName = ''c'',
                  FieldInfo_Comments = []\<rparr>],
              StructInfo_Methods = [],
              StructInfo_Comments = []\<rparr>],
            ''models'')
   \<and> declared_names
         [Field [] [resolved 31 ''A'' Var DeclField, resolved 34 ''B'' Var DeclField]
            (Ident (ident_at 36 ''int'')) None [],
          Field [] [resolved 41 ''C'' Var DeclField]
            (Ident (ident_at 43 ''string'')) None []]
       = [''A'', ''B'', ''C'']
   \<and> GenerateCode example_gen_env sqlite_flags
         (fst (projr (ExtractStructs example_gen_env ''t.go''))) ''models''
       = ('''', Some (ParseTemplateFailed (FunctionNotDefined ''GetSQLType'')))"
  by (simp add: ExtractStructs_def example_gen_env_def multi_name_file_def resolved_def
      ident_at_def List.map_filter_simps Let_def example_ToLower_def GenerateCode_def
      Parse_tmplText
      declared_names_def)

end
